(* ===== verification/Prelude.thy ===== *)
theory Prelude
  imports Main "HOL-Library.Sublist" "HOL-Library.AList"
begin

text \<open>
  Shared vocabulary of the development. Python exceptions raised by the code
  (\<open>KeyError\<close> on a missing dictionary key, \<open>ValueError\<close> from \<open>max()\<close> of an
  empty sequence) are values of \<open>py_error\<close>, and a computation that may raise
  returns \<open>py_error + 'a\<close> (\<open>Inl\<close> the exception). \<open>py_bind\<close> propagates the
  first exception, as Python's unwinding does. A Python dictionary whose
  iteration order matters is an association list (\<open>('k \<times> 'v) list\<close>, in
  insertion order). The collection \<open>py_result_iff\<close> holds the rewrite rules
  that turn "the computation returned \<open>Inr v\<close>" into facts about its parts.
\<close>

named_theorems py_result_iff "rewrite rules characterising successful sum-typed results"
named_theorems scan_simps "evaluation rules of the keyword scans"

datatype py_error = KeyError string | ValueError string

type_synonym 'a py_result = "py_error + 'a"

text \<open>A Python dictionary in insertion order.\<close>
type_synonym ('k, 'v) pydict = "('k \<times> 'v) list"

definition py_bind :: "'a py_result \<Rightarrow> ('a \<Rightarrow> 'b py_result) \<Rightarrow> 'b py_result" where
  "py_bind m f = (case m of Inl e \<Rightarrow> Inl e | Inr x \<Rightarrow> f x)"

lemma py_bind_Inl [simp]: "py_bind (Inl e) f = Inl e"
  by (simp add: py_bind_def)

lemma py_bind_Inr [simp]: "py_bind (Inr x) f = f x"
  by (simp add: py_bind_def)

lemma py_bind_eq_Inr [py_result_iff]:
  "py_bind m f = Inr y \<longleftrightarrow> (\<exists>x. m = Inr x \<and> f x = Inr y)"
  by (cases m) auto

lemma py_bind_eq_Inl [py_result_iff]:
  "py_bind m f = Inl e \<longleftrightarrow> m = Inl e \<or> (\<exists>x. m = Inr x \<and> f x = Inl e)"
  by (cases m) auto

text \<open>Facts on lists and association lists shared by the components.\<close>

lemma list_ex_append_iff [simp]: "list_ex P (xs @ ys) \<longleftrightarrow> list_ex P xs \<or> list_ex P ys"
  by (induction xs) auto

lemma map_fst_map_pair [simp]: "map fst (map (\<lambda>c. (c, f c)) xs) = xs"
  by (induction xs) auto

lemma update_map_pair:
  "k \<in> set cs \<Longrightarrow> distinct cs \<Longrightarrow>
   AList.update k v (map (\<lambda>c. (c, f c)) cs) = map (\<lambda>c. (c, (f(k := v)) c)) cs"
  by (induction cs) auto

lemma map_of_map_pair [simp]: "map_of (map (\<lambda>c. (c, f c)) cs) k = (if k \<in> set cs then Some (f k) else None)"
  by (induction cs) auto

end
