(* ===== verification/PyStr.thy ===== *)
theory PyStr
  imports Prelude
begin

text \<open>
  The Python \<open>str\<close> operations the three scripts are built from, on
  \<open>string\<close> (a list of 8-bit \<open>char\<close>s read as the Latin-1 code points
  U+0000..U+00FF): \<open>str.lower\<close>, \<open>str.isspace\<close> and \<open>str.strip\<close>,
  \<open>str.startswith\<close>, the substring test \<open>k in s\<close>, \<open>str.split(sep)\<close>,
  \<open>sep.join\<close> and \<open>str.replace\<close>. Each is written the way CPython computes it
  on that range, and each scan is related to its library specification
  (\<open>prefix\<close>, \<open>sublist\<close>) or to its inverse (split/join).
\<close>

section \<open>\<open>str.lower\<close>\<close>

text \<open>
  On Latin-1, \<open>str.lower\<close> maps A..Z (0x41..0x5A) and the letters
  0xC0..0xDE other than the multiplication sign 0xD7 to the code point 32
  higher; every other character is unchanged. Adding 32 to these code points
  sets bit 5, which is how \<open>lower_char\<close> is written.
\<close>

definition is_upper_latin1 :: "char \<Rightarrow> bool" where
  "is_upper_latin1 c = (let n = of_char c :: nat in
     (65 \<le> n \<and> n \<le> 90) \<or> (192 \<le> n \<and> n \<le> 222 \<and> n \<noteq> 215))"

fun lower_char :: "char \<Rightarrow> char" where
  "lower_char (Char b0 b1 b2 b3 b4 b5 b6 b7) =
     (if is_upper_latin1 (Char b0 b1 b2 b3 b4 b5 b6 b7) then Char b0 b1 b2 b3 b4 True b6 b7
      else Char b0 b1 b2 b3 b4 b5 b6 b7)"

definition py_lower :: "string \<Rightarrow> string" where
  "py_lower s = map lower_char s"

section \<open>\<open>str.isspace\<close> and \<open>str.strip\<close>\<close>

text \<open>
  The characters below 256 for which Python's \<open>str.isspace\<close> holds: tab to
  carriage return (9..13), the separators 0x1C..0x1F, space, NEL (0x85) and
  the no-break space (0xA0). \<open>str.strip()\<close> with no argument removes them at
  both ends, and the regular expression class \<open>\s\<close> matches the same set.
\<close>

definition is_space :: "char \<Rightarrow> bool" where
  "is_space c = (let n = of_char c :: nat in
     (9 \<le> n \<and> n \<le> 13) \<or> (28 \<le> n \<and> n \<le> 32) \<or> n = 133 \<or> n = 160)"

definition py_lstrip :: "string \<Rightarrow> string" where
  "py_lstrip s = dropWhile is_space s"

definition py_rstrip :: "string \<Rightarrow> string" where
  "py_rstrip s = rev (dropWhile is_space (rev s))"

definition py_strip :: "string \<Rightarrow> string" where
  "py_strip s = py_rstrip (py_lstrip s)"

section \<open>\<open>str.startswith\<close> and \<open>in\<close>\<close>

definition py_startswith :: "string \<Rightarrow> string \<Rightarrow> bool" where
  "py_startswith p s = (take (length p) s = p)"

text \<open>
  \<open>k in s\<close>: is \<open>k\<close> found at some position of \<open>s\<close>? The scan tries the
  positions from the left; the empty string is found everywhere.
\<close>

fun py_in :: "string \<Rightarrow> string \<Rightarrow> bool" where
  "py_in k [] = (k = [])"
| "py_in k (c # s) = (py_startswith k (c # s) \<or> py_in k s)"

text \<open>\<open>any(k in s for k in ks)\<close>.\<close>

definition any_in :: "string list \<Rightarrow> string \<Rightarrow> bool" where
  "any_in ks s = list_ex (\<lambda>k. py_in k s) ks"

section \<open>\<open>str.split\<close>, \<open>str.join\<close> and \<open>str.replace\<close>\<close>

text \<open>
  \<open>s.split(d)\<close> with an explicit one-character separator: the pieces between
  the separators, always at least one (\<open>''.split(d) == ['']\<close>).
\<close>

fun py_split :: "char \<Rightarrow> string \<Rightarrow> string list" where
  "py_split d [] = [[]]"
| "py_split d (c # s) =
     (let ws = py_split d s in if c = d then [] # ws else (c # hd ws) # tl ws)"

text \<open>\<open>sep.join(ws)\<close>.\<close>

fun py_join :: "string \<Rightarrow> string list \<Rightarrow> string" where
  "py_join sep [] = []"
| "py_join sep [w] = w"
| "py_join sep (w # v # ws) = w @ sep @ py_join sep (v # ws)"

text \<open>
  \<open>s.replace(old, new)\<close>: with a non-empty \<open>old\<close>, scan from the left and
  replace every occurrence that does not overlap an earlier replaced one; with
  an empty \<open>old\<close>, CPython inserts \<open>new\<close> before every character and at the
  end. The scan's termination measure is the length of the rest of the string.
\<close>

function replace_scan :: "string \<Rightarrow> string \<Rightarrow> string \<Rightarrow> string" where
  "replace_scan old new [] = []"
| "replace_scan old new (c # s) =
     (if old \<noteq> [] \<and> py_startswith old (c # s)
      then new @ replace_scan old new (drop (length old) (c # s))
      else c # replace_scan old new s)"
  by pat_completeness auto
termination
  by (relation "measure (\<lambda>(old, new, s). length s)") auto

definition py_replace :: "string \<Rightarrow> string \<Rightarrow> string \<Rightarrow> string" where
  "py_replace old new s =
     (if old = [] then new @ concat (map (\<lambda>c. c # new) s) else replace_scan old new s)"

section \<open>Lemmas: lowercase\<close>

declare lower_char.simps [simp del]

lemma of_char_Char_nat:
  "(of_char (Char b0 b1 b2 b3 b4 b5 b6 b7) :: nat) =
     of_bool b0 + 2 * of_bool b1 + 4 * of_bool b2 + 8 * of_bool b3 + 16 * of_bool b4
     + 32 * of_bool b5 + 64 * of_bool b6 + 128 * of_bool b7"
  by simp

lemma of_char_lower_char:
  "(of_char (lower_char c) :: nat) = (if is_upper_latin1 c then of_char c + 32 else of_char c)"
proof (cases c)
  case (Char b0 b1 b2 b3 b4 b5 b6 b7)
  show ?thesis
  proof (cases "is_upper_latin1 c")
    case True
    have low: "of_bool b0 + 2 * of_bool b1 + 4 * of_bool b2 + 8 * of_bool b3 + 16 * of_bool b4
      \<le> (31::nat)"
      by (cases b0; cases b1; cases b2; cases b3; cases b4) simp_all
    from True low have "\<not> b5"
      unfolding Char is_upper_latin1_def Let_def of_char_Char_nat
      by (cases b5; cases b6; cases b7) auto
    with True Char show ?thesis by (simp add: lower_char.simps)
  next
    case False
    with Char show ?thesis by (simp add: lower_char.simps)
  qed
qed

lemma lower_char_not_upper: "\<not> is_upper_latin1 (lower_char c)"
  using of_char_lower_char [of c]
  by (auto simp: is_upper_latin1_def Let_def split: if_splits)

lemma lower_char_idem [simp]: "lower_char (lower_char c) = lower_char c"
proof -
  have "(of_char (lower_char (lower_char c)) :: nat) = of_char (lower_char c)"
    by (simp add: of_char_lower_char lower_char_not_upper)
  then show ?thesis by (metis char_of_char)
qed

lemma lower_char_fixed: "\<not> is_upper_latin1 c \<Longrightarrow> lower_char c = c"
  by (metis char_of_char of_char_lower_char)

lemma py_lower_simps [simp]:
  "py_lower [] = []"
  "py_lower (c # s) = lower_char c # py_lower s"
  "py_lower (s @ t) = py_lower s @ py_lower t"
  "length (py_lower s) = length s"
  by (simp_all add: py_lower_def)

lemma py_lower_idem [simp]: "py_lower (py_lower s) = py_lower s"
  by (induction s) auto

lemma is_space_not_upper: "is_space c \<Longrightarrow> \<not> is_upper_latin1 c"
  by (auto simp: is_space_def is_upper_latin1_def Let_def)

lemma lower_char_is_space [simp]: "is_space (lower_char c) = is_space c"
  using of_char_lower_char [of c]
  by (auto simp: is_space_def is_upper_latin1_def Let_def split: if_splits)

section \<open>Lemmas: startswith and in refine prefix and sublist\<close>

lemma py_startswith_iff_prefix: "py_startswith p s \<longleftrightarrow> prefix p s"
proof (induction p arbitrary: s)
  case Nil
  then show ?case by (simp add: py_startswith_def)
next
  case (Cons a p)
  then show ?case by (cases s) (auto simp: py_startswith_def)
qed

lemma py_in_iff_sublist: "py_in k s \<longleftrightarrow> sublist k s"
proof (induction s)
  case Nil
  then show ?case by simp
next
  case (Cons c s)
  then show ?case by (simp add: py_startswith_iff_prefix sublist_Cons_right)
qed

lemma py_in_iff_split: "py_in k s \<longleftrightarrow> (\<exists>a b. s = a @ k @ b)"
  by (simp add: py_in_iff_sublist sublist_def)

lemma py_in_append_mono [intro]: "py_in k s \<Longrightarrow> py_in k (a @ s @ b)"
  unfolding py_in_iff_sublist by (auto simp: sublist_def) (metis append_assoc)

lemma py_in_trans: "py_in k s \<Longrightarrow> py_in s t \<Longrightarrow> py_in k t"
  by (auto simp: py_in_iff_sublist intro: sublist_order.order_trans)

lemma py_in_lower: "py_in k s \<Longrightarrow> py_in (py_lower k) (py_lower s)"
proof -
  assume "py_in k s"
  then obtain a b where "s = a @ k @ b" by (auto simp: py_in_iff_split)
  then have "py_lower s = py_lower a @ py_lower k @ py_lower b" by simp
  then show ?thesis by (auto simp: py_in_iff_split)
qed

lemma py_in_self [simp]: "py_in s s"
  by (simp add: py_in_iff_sublist)

lemma any_in_iff: "any_in ks s \<longleftrightarrow> (\<exists>k \<in> set ks. py_in k s)"
  by (simp add: any_in_def list_ex_iff)

section \<open>Lemmas: strip\<close>

lemma py_lstrip_spaces_left:
  "\<forall>c \<in> set ws. is_space c \<Longrightarrow> py_lstrip (ws @ s) = py_lstrip s"
  by (simp add: py_lstrip_def dropWhile_append2)

lemma py_rstrip_spaces_right:
  "\<forall>c \<in> set ws. is_space c \<Longrightarrow> py_rstrip (s @ ws) = py_rstrip s"
  using dropWhile_append2 [of "rev ws" is_space "rev s"] by (simp add: py_rstrip_def)

lemma py_rstrip_append_nonspace:
  "c \<in> set s \<Longrightarrow> \<not> is_space c \<Longrightarrow> py_rstrip (t @ s) = t @ py_rstrip s"
  by (simp add: py_rstrip_def dropWhile_append1)

lemma py_lstrip_append_nonspace:
  "c \<in> set s \<Longrightarrow> \<not> is_space c \<Longrightarrow> py_lstrip (s @ t) = py_lstrip s @ t"
  by (simp add: py_lstrip_def dropWhile_append1)

text \<open>Whitespace around a string does not change what \<open>strip()\<close> returns.\<close>

lemma py_strip_spaces_around:
  assumes "\<forall>c \<in> set ws. is_space c" and "\<forall>c \<in> set ws'. is_space c"
  shows "py_strip (ws @ s @ ws') = py_strip s"
proof (cases "\<exists>c \<in> set s. \<not> is_space c")
  case True
  then obtain c where c: "c \<in> set s" "\<not> is_space c" by blast
  then have "c \<in> set (py_lstrip s)"
    unfolding py_lstrip_def by (induction s) auto
  with c assms show ?thesis
    by (simp add: py_strip_def py_lstrip_spaces_left py_lstrip_append_nonspace [OF c]
        py_rstrip_spaces_right)
next
  case False
  then have "\<forall>c \<in> set (ws @ s @ ws'). is_space c" using assms by auto
  then have "py_lstrip (ws @ s @ ws') = []" "py_lstrip s = []"
    using False by (simp_all add: py_lstrip_def)
  then show ?thesis by (simp add: py_strip_def py_rstrip_def)
qed

lemma py_strip_stripped:
  "s = [] \<or> (\<not> is_space (hd s) \<and> \<not> is_space (last s)) \<Longrightarrow> py_strip s = s"
proof -
  assume h: "s = [] \<or> (\<not> is_space (hd s) \<and> \<not> is_space (last s))"
  then have "dropWhile is_space s = s" by (auto simp: dropWhile_eq_self_iff)
  moreover from h have "dropWhile is_space (rev s) = rev s"
    by (auto simp: dropWhile_eq_self_iff hd_rev)
  ultimately show ?thesis by (simp add: py_strip_def py_lstrip_def py_rstrip_def)
qed

section \<open>Lemmas: split and join\<close>

lemma py_split_not_Nil [simp]: "py_split d s \<noteq> []"
  by (induction s) (auto simp: Let_def)

lemma py_split_Cons_cases:
  obtains w ws where "py_split d s = w # ws"
  using py_split_not_Nil by (cases "py_split d s") auto

lemma py_join_Cons_Cons: "py_join sep ((c # w) # ws) = c # py_join sep (w # ws)"
  by (cases ws) auto

lemma py_join_split: "py_join [d] (py_split d s) = s"
proof (induction s)
  case Nil
  show ?case by simp
next
  case (Cons c s)
  obtain w ws where sp: "py_split d s = w # ws" by (rule py_split_Cons_cases)
  with Cons.IH show ?case by (auto simp: Let_def py_join_Cons_Cons)
qed

lemma py_split_no_sep: "w \<in> set (py_split d s) \<Longrightarrow> d \<notin> set w"
proof (induction s arbitrary: w)
  case Nil
  then show ?case by simp
next
  case (Cons c s)
  obtain v vs where sp: "py_split d s = v # vs" by (rule py_split_Cons_cases)
  with Cons show ?case by (auto simp: Let_def split: if_splits)
qed

lemma py_split_append_word:
  "d \<notin> set w \<Longrightarrow> py_split d (w @ rest) = (w @ hd (py_split d rest)) # tl (py_split d rest)"
  by (induction w) (auto simp: Let_def)

lemma py_split_join:
  "ws \<noteq> [] \<Longrightarrow> \<forall>w \<in> set ws. d \<notin> set w \<Longrightarrow> py_split d (py_join [d] ws) = ws"
proof (induction ws)
  case (Cons w ws)
  note IH = Cons.IH and prems = Cons.prems
  show ?case
  proof (cases ws)
    case Nil
    with prems show ?thesis using py_split_append_word [of d w "[]"] by simp
  next
    case (Cons v vs)
    with IH prems show ?thesis
      using py_split_append_word [of d w "d # py_join [d] ws"] by (simp add: Let_def)
  qed
qed simp

lemma length_py_split: "length (py_split d s) = count_list s d + 1"
proof (induction s)
  case Nil
  then show ?case by simp
next
  case (Cons c s)
  obtain v vs where "py_split d s = v # vs" by (rule py_split_Cons_cases)
  with Cons show ?case by (simp add: Let_def)
qed

section \<open>Lemmas: replace\<close>

lemma py_startswith_append_disjoint:
  assumes "set ws \<inter> set p = {}" and "py_startswith p (t @ ws)"
  shows "py_startswith p t"
proof -
  from assms(2) have "prefix p t \<or> (\<exists>us. p = t @ us \<and> prefix us ws)"
    by (simp add: py_startswith_iff_prefix prefix_append)
  then show ?thesis
  proof
    assume "\<exists>us. p = t @ us \<and> prefix us ws"
    then obtain us where p: "p = t @ us" and us: "prefix us ws" by blast
    show ?thesis
    proof (cases us)
      case Nil
      with p show ?thesis by (simp add: py_startswith_def)
    next
      case (Cons u us')
      with us p have "u \<in> set ws" "u \<in> set p" by (auto simp: prefix_def)
      with assms(1) show ?thesis by blast
    qed
  qed (simp add: py_startswith_iff_prefix)
qed

lemma replace_scan_no_occurrence: "\<not> py_in old s \<Longrightarrow> replace_scan old new s = s"
proof (induction old new s rule: replace_scan.induct)
  case (2 old new c s)
  then show ?case by auto
qed simp

lemma replace_scan_prefix:
  "old \<noteq> [] \<Longrightarrow> replace_scan old new (old @ s) = new @ replace_scan old new s"
  by (cases old) (simp_all add: py_startswith_def)

lemma replace_scan_disjoint_left:
  "set ws \<inter> set old = {} \<Longrightarrow> replace_scan old new (ws @ s) = ws @ replace_scan old new s"
proof (induction ws)
  case (Cons c ws)
  have "\<not> (old \<noteq> [] \<and> py_startswith old (c # ws @ s))"
    using Cons.prems by (cases old) (auto simp: py_startswith_def)
  with Cons show ?case by auto
qed simp

lemma replace_scan_disjoint_right:
  "set ws \<inter> set old = {} \<Longrightarrow> replace_scan old new (s @ ws) = replace_scan old new s @ ws"
proof (induction old new s rule: replace_scan.induct)
  case (1 old new)
  then show ?case using replace_scan_disjoint_left [of ws old new "[]"] by simp
next
  case (2 old new c s)
  show ?case
  proof (cases "old \<noteq> [] \<and> py_startswith old (c # s)")
    case True
    then have "length old \<le> length (c # s)"
      by (auto simp: py_startswith_iff_prefix dest: prefix_length_le)
    then have "drop (length old) ((c # s) @ ws) = drop (length old) (c # s) @ ws"
      by (simp only: drop_append) simp
    moreover from True have "py_startswith old ((c # s) @ ws)"
      unfolding py_startswith_iff_prefix by (metis prefix_append)
    ultimately show ?thesis using True "2.IH"(1) "2.prems" by simp
  next
    case False
    then have "\<not> (old \<noteq> [] \<and> py_startswith old ((c # s) @ ws))"
      using py_startswith_append_disjoint [OF "2.prems"] by blast
    with False "2.IH"(2) "2.prems" show ?thesis by auto
  qed
qed

section \<open>Evaluation rules\<close>

text \<open>The rules \<open>simp\<close> needs to run the scans on concrete strings.\<close>

lemmas [scan_simps] = lower_char.simps is_upper_latin1_def is_space_def py_startswith_def

end
