(* ===== verification/SentimentIntent.thy ===== *)
theory SentimentIntent
  imports PyStr
begin

text \<open>
  Model of \<open>src/sentiment_intent_analysis.py\<close>, class
  \<open>PatientSentimentAnalyzer\<close>. The constructor's keyword tables are the record
  \<open>init_analyzer\<close> (the BERT tokenizer and the two classification models it loads
  are never called: the calls are commented out in the source, so they are not
  part of the state modelled). The two rule-based classifiers share one body,
  \<open>keyword_classify\<close>: lowercase the text, build the score dictionary with one
  zero per class, add one to the class of every keyword found in the text
  (\<open>scores[k] += 1\<close> raises \<open>KeyError\<close> on a key that is not a class), take
  \<open>max\<close> of the scores (\<open>ValueError\<close> on an empty dictionary), return the
  dflt when it is 0 and otherwise the first class, in dictionary order, whose
  score equals it; the final loop falls off the end (Python returns \<open>None\<close>)
  when no score equals the maximum, which is why the result is a
  \<open>string option\<close>.
\<close>

section \<open>State: the analyzer's keyword tables\<close>

record patient_sentiment_analyzer =
  sentiment_classes :: "string list"
  intent_classes :: "string list"
  sentiment_keywords :: "(string, string list) pydict"
  intent_keywords :: "(string, string list) pydict"

definition init_analyzer :: patient_sentiment_analyzer where
  "init_analyzer =
     \<lparr>sentiment_classes = [''Anxious'', ''Neutral'', ''Reassured''],
      intent_classes =
        [''Seeking reassurance'', ''Reporting symptoms'', ''Expressing concern'',
         ''Sharing information''],
      sentiment_keywords =
        [(''Anxious'', [''worried'', ''concern'', ''anxious'', ''nervous'', ''scared'', ''afraid'', ''fear'']),
         (''Reassured'', [''relief'', ''better'', ''good'', ''great'', ''happy'', ''reassured'', ''confident'']),
         (''Neutral'', [''okay'', ''fine'', ''alright'', ''understand''])],
      intent_keywords =
        [(''Seeking reassurance'', [''will i'', ''should i'', ''worry'', ''concern'', ''?'', ''right?'', ''okay?'']),
         (''Reporting symptoms'', [''pain'', ''hurt'', ''feel'', ''symptom'', ''discomfort'', ''ache'']),
         (''Expressing concern'', [''worried'', ''afraid'', ''scared'', ''concerned'', ''anxious'']),
         (''Sharing information'', [''happened'', ''i was'', ''i had'', ''i did'', ''i went''])]\<rparr>"

section \<open>Extracting the patient's lines\<close>

text \<open>
  \<open>extract_patient_dialogue\<close>: split on newlines, keep the lines whose stripped
  text starts with \<open>Patient:\<close>, remove every \<open>Patient:\<close> of the (unstripped)
  line with \<open>replace\<close>, strip, and join the pieces with one space.
\<close>

definition patient_tag :: string where
  "patient_tag = ''Patient:''"

definition newline :: char where
  "newline = CHR 0x0A"

definition extract_patient_dialogue :: "string \<Rightarrow> string" where
  "extract_patient_dialogue transcript =
     py_join '' ''
       (map (\<lambda>line. py_strip (py_replace patient_tag [] line))
         (filter (\<lambda>line. py_startswith patient_tag (py_strip line))
           (py_split newline transcript)))"

section \<open>The score dictionary\<close>

text \<open>\<open>{c: 0 for c in classes}\<close>: dictionary assignment in insertion order.\<close>

definition init_scores :: "string list \<Rightarrow> (string, nat) pydict" where
  "init_scores classes = fold (\<lambda>c d. AList.update c 0 d) classes []"

text \<open>\<open>scores[k] += 1\<close>: a read (\<open>KeyError\<close> when absent), then an assignment.\<close>

definition dict_incr :: "string \<Rightarrow> (string, nat) pydict \<Rightarrow> (string, nat) pydict py_result" where
  "dict_incr k d =
     (case map_of d k of None \<Rightarrow> Inl (KeyError k) | Some n \<Rightarrow> Inr (AList.update k (n + 1) d))"

text \<open>The inner loop \<open>for keyword in keywords: if keyword in text: scores[c] += 1\<close>.\<close>

fun count_keywords ::
  "string \<Rightarrow> string \<Rightarrow> string list \<Rightarrow> (string, nat) pydict \<Rightarrow> (string, nat) pydict py_result" where
  "count_keywords text cls [] scores = Inr scores"
| "count_keywords text cls (kw # kws) scores =
     (if py_in kw text then py_bind (dict_incr cls scores) (count_keywords text cls kws)
      else count_keywords text cls kws scores)"

text \<open>The outer loop over \<open>keywords_dict.items()\<close>.\<close>

fun tally ::
  "string \<Rightarrow> (string, string list) pydict \<Rightarrow> (string, nat) pydict \<Rightarrow> (string, nat) pydict py_result" where
  "tally text [] scores = Inr scores"
| "tally text ((cls, kws) # rest) scores =
     py_bind (count_keywords text cls kws scores) (tally text rest)"

text \<open>\<open>max(scores.values())\<close>.\<close>

definition py_max :: "nat list \<Rightarrow> nat py_result" where
  "py_max xs =
     (case xs of [] \<Rightarrow> Inl (ValueError ''max() arg is an empty sequence'')
      | x # ys \<Rightarrow> Inr (fold max ys x))"

text \<open>\<open>for c, score in scores.items(): if score == max_score: return c\<close>.\<close>

fun first_with_score :: "nat \<Rightarrow> (string, nat) pydict \<Rightarrow> string option" where
  "first_with_score m [] = None"
| "first_with_score m ((c, n) # ps) = (if n = m then Some c else first_with_score m ps)"

section \<open>The classifiers\<close>

definition keyword_classify ::
  "string list \<Rightarrow> (string, string list) pydict \<Rightarrow> string \<Rightarrow> string \<Rightarrow> string option py_result" where
  "keyword_classify classes table dflt text =
     (let t = py_lower text in
      py_bind (tally t table (init_scores classes)) (\<lambda>scores.
      py_bind (py_max (map snd scores)) (\<lambda>max_score.
        if max_score = 0 then Inr (Some dflt) else Inr (first_with_score max_score scores))))"

definition rule_based_sentiment :: "patient_sentiment_analyzer \<Rightarrow> string \<Rightarrow> string option py_result" where
  "rule_based_sentiment self text =
     keyword_classify (sentiment_classes self) (sentiment_keywords self) ''Neutral'' text"

definition rule_based_intent :: "patient_sentiment_analyzer \<Rightarrow> string \<Rightarrow> string option py_result" where
  "rule_based_intent self text =
     keyword_classify (intent_classes self) (intent_keywords self) ''Sharing information'' text"

text \<open>
  \<open>analyze_sentiment\<close> and \<open>analyze_intent\<close>: the model call is commented out;
  the \<open>try\<close> block calls the rule-based classifier and the \<open>except\<close> branch
  prints the error (output, not modelled) and calls it again.
\<close>

definition analyze_sentiment :: "patient_sentiment_analyzer \<Rightarrow> string \<Rightarrow> string option py_result" where
  "analyze_sentiment self text =
     (case rule_based_sentiment self text of
        Inl e \<Rightarrow> rule_based_sentiment self text
      | Inr sentiment \<Rightarrow> Inr sentiment)"

definition analyze_intent :: "patient_sentiment_analyzer \<Rightarrow> string \<Rightarrow> string option py_result" where
  "analyze_intent self text =
     (case rule_based_intent self text of
        Inl e \<Rightarrow> rule_based_intent self text
      | Inr intent \<Rightarrow> Inr intent)"

record dialogue_analysis =
  Sentiment :: "string option"
  Intent :: "string option"

definition analyze_patient_dialogue ::
  "patient_sentiment_analyzer \<Rightarrow> string \<Rightarrow> dialogue_analysis py_result" where
  "analyze_patient_dialogue self transcript =
     (let patient_dialogue = extract_patient_dialogue transcript in
      py_bind (analyze_sentiment self patient_dialogue) (\<lambda>sentiment.
      py_bind (analyze_intent self patient_dialogue) (\<lambda>intent.
        Inr \<lparr>Sentiment = sentiment, Intent = intent\<rparr>)))"

definition sample_input :: string where
  "sample_input = ''I'm a bit worried about my back pain, but I hope it gets better soon.''"

section \<open>Specification of the classifiers\<close>

text \<open>
  The score of a class is the number of its keywords found in the text: the
  keyword table is read as the sum over its entries for that class (a Python
  dictionary has at most one).
\<close>

definition keyword_score :: "(string, string list) pydict \<Rightarrow> string \<Rightarrow> string \<Rightarrow> nat" where
  "keyword_score table t c =
     sum_list (map (\<lambda>(c', kws). if c' = c then length (filter (\<lambda>k. py_in k t) kws) else 0) table)"

text \<open>
  What the classifier promises: the default when no class scores, otherwise the
  first class in class order whose score is the maximum.
\<close>

definition classify_spec ::
  "string list \<Rightarrow> (string, string list) pydict \<Rightarrow> string \<Rightarrow> string \<Rightarrow> string option" where
  "classify_spec classes table dflt text =
     (let sc = keyword_score table (py_lower text); m = Max (sc ` set classes) in
      if m = 0 then Some dflt else find (\<lambda>c. sc c = m) classes)"

text \<open>The keyword tables name only classes, and the classes are distinct.\<close>

definition well_formed_table :: "string list \<Rightarrow> (string, string list) pydict \<Rightarrow> bool" where
  "well_formed_table classes table \<longleftrightarrow>
     classes \<noteq> [] \<and> distinct classes \<and> fst ` set table \<subseteq> set classes"

section \<open>Lemmas: the score dictionary\<close>

lemma update_fresh: "k \<notin> fst ` set d \<Longrightarrow> AList.update k v d = d @ [(k, v)]"
  by (induction d) auto

lemma fold_update_fresh:
  "distinct cs \<Longrightarrow> set cs \<inter> fst ` set d = {} \<Longrightarrow>
   fold (\<lambda>c d. AList.update c 0 d) cs d = d @ map (\<lambda>c. (c, 0)) cs"
proof (induction cs arbitrary: d)
  case (Cons c cs)
  then have "fold (\<lambda>c d. AList.update c 0 d) cs (d @ [(c, 0)]) = (d @ [(c, 0)]) @ map (\<lambda>c. (c, 0)) cs"
    by (intro Cons.IH) auto
  with Cons.prems show ?case by (simp add: update_fresh)
qed simp

lemma init_scores_eq: "distinct classes \<Longrightarrow> init_scores classes = map (\<lambda>c. (c, 0)) classes"
  using fold_update_fresh [of classes "[]"] by (simp add: init_scores_def)

lemma dict_incr_map_pair:
  "k \<in> set cs \<Longrightarrow> distinct cs \<Longrightarrow>
   dict_incr k (map (\<lambda>c. (c, f c)) cs) = Inr (map (\<lambda>c. (c, (f(k := f k + 1)) c)) cs)"
  by (simp add: dict_incr_def update_map_pair)

lemma dict_incr_missing: "k \<notin> fst ` set d \<Longrightarrow> dict_incr k d = Inl (KeyError k)"
proof -
  assume "k \<notin> fst ` set d"
  then have "map_of d k = None" by (simp add: map_of_eq_None_iff)
  then show ?thesis by (simp add: dict_incr_def)
qed

text \<open>
  Loop invariant of both loops: the dictionary holds one entry per class, in
  class order; each step adds the keyword hits to its own class.
\<close>

lemma count_keywords_map_pair:
  "cls \<in> set cs \<Longrightarrow> distinct cs \<Longrightarrow>
   count_keywords t cls kws (map (\<lambda>c. (c, f c)) cs) =
     Inr (map (\<lambda>c. (c, (f(cls := f cls + length (filter (\<lambda>k. py_in k t) kws))) c)) cs)"
proof (induction kws arbitrary: f)
  case Nil
  then show ?case by simp
next
  case (Cons kw kws)
  then show ?case by (auto simp: dict_incr_map_pair fun_upd_def)
qed

lemma tally_map_pair:
  "fst ` set table \<subseteq> set cs \<Longrightarrow> distinct cs \<Longrightarrow>
   tally t table (map (\<lambda>c. (c, f c)) cs) =
     Inr (map (\<lambda>c. (c, f c + keyword_score table t c)) cs)"
proof (induction table arbitrary: f)
  case Nil
  then show ?case by (simp add: keyword_score_def)
next
  case (Cons entry rest)
  obtain cls kws where entry: "entry = (cls, kws)" by fastforce
  with Cons.prems have "cls \<in> set cs" by auto
  with Cons entry show ?case
    by (auto simp: count_keywords_map_pair keyword_score_def fun_upd_def)
qed

lemma py_max_map_pair:
  "cs \<noteq> [] \<Longrightarrow> py_max (map snd (map (\<lambda>c. (c, g c)) cs)) = Inr (Max (g ` set cs))"
proof (cases cs)
  case (Cons c cs')
  have "Max (g ` set cs) = fold max (map g cs') (g c)"
    using Max.set_eq_fold [of "g c" "map g cs'"] by (simp add: Cons)
  then show ?thesis by (simp add: py_max_def Cons comp_def)
qed simp

lemma first_with_score_map_pair:
  "first_with_score m (map (\<lambda>c. (c, g c)) cs) = find (\<lambda>c. g c = m) cs"
  by (induction cs) auto

text \<open>
  The error paths of the loops: a class of the table that is missing from the
  dictionary raises \<open>KeyError\<close> at its first keyword hit, and the first such
  class in table order is the error of the whole tally.
\<close>

lemma find_Some_mem: "find P xs = Some x \<Longrightarrow> x \<in> set xs \<and> P x"
  by (induction xs) (auto split: if_splits)

lemma count_keywords_no_hit: "\<not> any_in kws t \<Longrightarrow> count_keywords t cls kws d = Inr d"
  by (induction kws) (auto simp: any_in_def)

lemma count_keywords_missing:
  "cls \<notin> fst ` set d \<Longrightarrow> any_in kws t \<Longrightarrow> count_keywords t cls kws d = Inl (KeyError cls)"
  by (induction kws) (auto simp: dict_incr_missing any_in_def count_keywords_no_hit)

lemma tally_outcome:
  assumes "distinct cs"
  shows "tally t table (map (\<lambda>c. (c, f c)) cs) =
    (case find (\<lambda>(c, kws). c \<notin> set cs \<and> any_in kws t) table of
       Some (c, _) \<Rightarrow> Inl (KeyError c)
     | None \<Rightarrow> Inr (map (\<lambda>c. (c, f c + keyword_score table t c)) cs))"
proof (induction table arbitrary: f)
  case Nil
  then show ?case by (simp add: keyword_score_def)
next
  case (Cons entry rest)
  obtain cls kws where entry: "entry = (cls, kws)" by fastforce
  show ?case
  proof (cases "cls \<in> set cs")
    case True
    with Cons.IH entry assms show ?thesis
      by (auto simp: count_keywords_map_pair keyword_score_def fun_upd_def split: option.split)
  next
    case False
    have notkey: "cls \<notin> fst ` set (map (\<lambda>c. (c, f c)) cs)"
      using False by (auto simp: image_image)
    show ?thesis
    proof (cases "any_in kws t")
      case True
      with False entry show ?thesis by (simp add: count_keywords_missing [OF notkey])
    next
      case nohit: False
      have "keyword_score (entry # rest) t = keyword_score rest t"
        using nohit entry by (auto simp: keyword_score_def any_in_def list_ex_iff filter_empty_conv)
      with Cons.IH False nohit entry show ?thesis
        by (simp add: count_keywords_no_hit split: option.split)
    qed
  qed
qed

lemma keyword_classify_outcome:
  assumes "distinct classes"
  shows "keyword_classify classes table dflt text =
    (case find (\<lambda>(c, kws). c \<notin> set classes \<and> any_in kws (py_lower text)) table of
       Some (c, _) \<Rightarrow> Inl (KeyError c)
     | None \<Rightarrow> py_bind (py_max (map (keyword_score table (py_lower text)) classes)) (\<lambda>m.
         if m = 0 then Inr (Some dflt)
         else Inr (first_with_score m (map (\<lambda>c. (c, keyword_score table (py_lower text) c)) classes))))"
  using tally_outcome [OF assms, of "py_lower text" table "\<lambda>_. 0"]
  by (simp add: keyword_classify_def init_scores_eq [OF assms] comp_def split: option.split)

section \<open>The classifier implements its specification\<close>

theorem keyword_classify_refines_spec:
  assumes "well_formed_table classes table"
  shows "keyword_classify classes table dflt text = Inr (classify_spec classes table dflt text)"
proof -
  let ?t = "py_lower text"
  let ?sc = "keyword_score table ?t"
  from assms have ne: "classes \<noteq> []" and d: "distinct classes"
    and keys: "fst ` set table \<subseteq> set classes"
    by (auto simp: well_formed_table_def)
  have "tally ?t table (init_scores classes) = Inr (map (\<lambda>c. (c, ?sc c)) classes)"
    using tally_map_pair [OF keys d, of ?t "\<lambda>_. 0"] by (simp add: init_scores_eq [OF d])
  moreover have "py_max (map snd (map (\<lambda>c. (c, ?sc c)) classes)) = Inr (Max (?sc ` set classes))"
    by (rule py_max_map_pair [OF ne])
  ultimately show ?thesis
    by (simp add: keyword_classify_def classify_spec_def first_with_score_map_pair Let_def)
qed

section \<open>Lemmas: what the specification returns\<close>

lemma keyword_score_not_key:
  "c \<notin> fst ` set table \<Longrightarrow> keyword_score table t c = 0"
  by (induction table) (auto simp: keyword_score_def)

lemma classify_spec_Some:
  assumes "classes \<noteq> []"
  shows "\<exists>r. classify_spec classes table dflt text = Some r"
proof -
  let ?sc = "keyword_score table (py_lower text)"
  let ?m = "Max (?sc ` set classes)"
  show ?thesis
  proof (cases "?m = 0")
    case True
    then show ?thesis by (simp add: classify_spec_def Let_def)
  next
    case False
    have "?m \<in> ?sc ` set classes"
      using assms by (intro Max_in) auto
    then obtain c where "c \<in> set classes" "?sc c = ?m" by auto
    then have "find (\<lambda>c. ?sc c = ?m) classes \<noteq> None"
      by (simp only: find_None_iff) blast
    with False show ?thesis by (auto simp: classify_spec_def Let_def)
  qed
qed

lemma classify_spec_cases:
  assumes "classify_spec classes table dflt text = Some r"
  obtains (zero) "Max (keyword_score table (py_lower text) ` set classes) = 0" "r = dflt"
    | (found) i where "i < length classes" "classes ! i = r"
        "keyword_score table (py_lower text) r = Max (keyword_score table (py_lower text) ` set classes)"
        "0 < Max (keyword_score table (py_lower text) ` set classes)"
        "\<forall>j < i. keyword_score table (py_lower text) (classes ! j) \<noteq> keyword_score table (py_lower text) r"
  using assms by (auto simp: classify_spec_def Let_def find_Some_iff split: if_splits)

lemma classify_spec_max:
  assumes "well_formed_table classes table" and "classify_spec classes table dflt text = Some r"
    and "c \<in> set classes"
  shows "keyword_score table (py_lower text) c \<le> keyword_score table (py_lower text) r"
  using assms(2)
proof (cases rule: classify_spec_cases)
  case zero
  have "keyword_score table (py_lower text) c \<le> Max (keyword_score table (py_lower text) ` set classes)"
    using assms(3) by (intro Max_ge) auto
  with zero show ?thesis by simp
next
  case (found i)
  then show ?thesis using assms(3) by simp
qed

lemma classify_spec_first:
  assumes "well_formed_table classes table" and "classify_spec classes table dflt text = Some r"
    and "0 < keyword_score table (py_lower text) r"
  shows "\<exists>i < length classes. classes ! i = r \<and>
           (\<forall>j < i. keyword_score table (py_lower text) (classes ! j) < keyword_score table (py_lower text) r)"
  using assms(2)
proof (cases rule: classify_spec_cases)
  case zero
  from assms(3) have "r \<in> fst ` set table" using keyword_score_not_key by fastforce
  with assms(1) have "r \<in> set classes" by (auto simp: well_formed_table_def)
  then have "keyword_score table (py_lower text) r \<le> Max (keyword_score table (py_lower text) ` set classes)"
    by (intro Max_ge) auto
  with zero assms(3) show ?thesis by simp
next
  case (found i)
  have "\<forall>j < i. keyword_score table (py_lower text) (classes ! j) < keyword_score table (py_lower text) r"
  proof (intro allI impI)
    fix j assume "j < i"
    with found have "classes ! j \<in> set classes" "keyword_score table (py_lower text) (classes ! j) \<noteq> keyword_score table (py_lower text) r"
      by auto
    moreover have "keyword_score table (py_lower text) (classes ! j) \<le> keyword_score table (py_lower text) r"
      using classify_spec_max [OF assms(1,2)] calculation(1) .
    ultimately show "keyword_score table (py_lower text) (classes ! j) < keyword_score table (py_lower text) r"
      by simp
  qed
  with found show ?thesis by blast
qed

lemma classify_spec_zero:
  assumes "classify_spec classes table dflt text = Some r"
    and "keyword_score table (py_lower text) r = 0"
  shows "r = dflt"
  using assms(1)
proof (cases rule: classify_spec_cases)
  case (found i)
  with assms(2) show ?thesis by simp
qed simp

text \<open>The three facts together, for the result of the classifier itself.\<close>

lemma keyword_classify_result:
  assumes "well_formed_table classes table"
    and "keyword_classify classes table dflt text = Inr (Some r)"
  shows "(\<forall>c \<in> set classes. keyword_score table (py_lower text) c \<le> keyword_score table (py_lower text) r)
    \<and> (keyword_score table (py_lower text) r = 0 \<longrightarrow> r = dflt)
    \<and> (0 < keyword_score table (py_lower text) r \<longrightarrow>
         (\<exists>i < length classes. classes ! i = r \<and>
            (\<forall>j < i. keyword_score table (py_lower text) (classes ! j) < keyword_score table (py_lower text) r)))"
proof -
  from assms have spec: "classify_spec classes table dflt text = Some r"
    by (simp add: keyword_classify_refines_spec)
  show ?thesis
    using classify_spec_max [OF assms(1) spec] classify_spec_zero [OF spec]
      classify_spec_first [OF assms(1) spec] by blast
qed

lemma keyword_classify_in_classes:
  assumes "well_formed_table classes table"
  shows "\<exists>r. keyword_classify classes table dflt text = Inr (Some r) \<and> (r = dflt \<or> r \<in> set classes)"
proof -
  from assms have "classes \<noteq> []" by (simp add: well_formed_table_def)
  then obtain r where spec: "classify_spec classes table dflt text = Some r"
    using classify_spec_Some by blast
  then have "r = dflt \<or> r \<in> set classes"
    by (cases rule: classify_spec_cases) auto
  with spec assms show ?thesis by (simp add: keyword_classify_refines_spec)
qed

section \<open>The analyzer's two classifiers\<close>

lemma well_formed_sentiment_table:
  "well_formed_table (sentiment_classes init_analyzer) (sentiment_keywords init_analyzer)"
  by (simp add: well_formed_table_def init_analyzer_def)

lemma well_formed_intent_table:
  "well_formed_table (intent_classes init_analyzer) (intent_keywords init_analyzer)"
  by (simp add: well_formed_table_def init_analyzer_def)

lemmas classifier_eval = rule_based_sentiment_def rule_based_intent_def keyword_classify_def
  init_analyzer_def init_scores_def dict_incr_def py_max_def sample_input_def scan_simps

abbreviation sentiment_score :: "string \<Rightarrow> string \<Rightarrow> nat" where
  "sentiment_score text c \<equiv> keyword_score (sentiment_keywords init_analyzer) (py_lower text) c"

abbreviation intent_score :: "string \<Rightarrow> string \<Rightarrow> nat" where
  "intent_score text c \<equiv> keyword_score (intent_keywords init_analyzer) (py_lower text) c"

text \<open>C1: the sentiment classifier computes
  its specification: Neutral when no sentiment keyword occurs in the lowercased text,
  otherwise the first of Anxious, Neutral, Reassured with the most keyword hits.\<close>

theorem rule_based_sentiment_refines_spec:
  "rule_based_sentiment init_analyzer text =
     Inr (classify_spec (sentiment_classes init_analyzer) (sentiment_keywords init_analyzer) ''Neutral'' text)"
  using keyword_classify_refines_spec [OF well_formed_sentiment_table]
  by (simp add: rule_based_sentiment_def)

text \<open>C6: the intent classifier computes its
  specification: Sharing information when no intent keyword occurs, otherwise the first
  intent class in class order with the most keyword hits.\<close>

theorem rule_based_intent_refines_spec:
  "rule_based_intent init_analyzer text =
     Inr (classify_spec (intent_classes init_analyzer) (intent_keywords init_analyzer)
       ''Sharing information'' text)"
  using keyword_classify_refines_spec [OF well_formed_intent_table]
  by (simp add: rule_based_intent_def)

text \<open>C8: on every text the sentiment classifier
  raises no KeyError or ValueError, does not fall off its final loop (returning
  None), and returns one of the three sentiment classes.\<close>

theorem rule_based_sentiment_total:
  "rule_based_sentiment init_analyzer text \<in>
     {Inr (Some ''Anxious''), Inr (Some ''Neutral''), Inr (Some ''Reassured'')}"
proof -
  obtain r where "keyword_classify (sentiment_classes init_analyzer) (sentiment_keywords init_analyzer)
      ''Neutral'' text = Inr (Some r)" and "r = ''Neutral'' \<or> r \<in> set (sentiment_classes init_analyzer)"
    using keyword_classify_in_classes [OF well_formed_sentiment_table] by blast
  then show ?thesis by (auto simp: rule_based_sentiment_def init_analyzer_def)
qed

text \<open>C17: on every text the intent classifier raises
  nothing, returns a value, and that value is one of the four intent classes.\<close>

theorem rule_based_intent_total:
  "rule_based_intent init_analyzer text \<in>
     {Inr (Some ''Seeking reassurance''), Inr (Some ''Reporting symptoms''),
      Inr (Some ''Expressing concern''), Inr (Some ''Sharing information'')}"
proof -
  obtain r where "keyword_classify (intent_classes init_analyzer) (intent_keywords init_analyzer)
      ''Sharing information'' text = Inr (Some r)"
    and "r = ''Sharing information'' \<or> r \<in> set (intent_classes init_analyzer)"
    using keyword_classify_in_classes [OF well_formed_intent_table] by blast
  then show ?thesis by (auto simp: rule_based_intent_def init_analyzer_def)
qed

text \<open>C7: the returned sentiment has the highest
  keyword score; a returned score of 0 means the default Neutral; with a positive score,
  every class listed before it scores strictly less (ties go to the earlier class).\<close>

theorem rule_based_sentiment_argmax:
  assumes "rule_based_sentiment init_analyzer text = Inr (Some r)"
  shows "(\<forall>c \<in> set (sentiment_classes init_analyzer). sentiment_score text c \<le> sentiment_score text r)
    \<and> (sentiment_score text r = 0 \<longrightarrow> r = ''Neutral'')
    \<and> (0 < sentiment_score text r \<longrightarrow>
         (\<exists>i < length (sentiment_classes init_analyzer). sentiment_classes init_analyzer ! i = r \<and>
            (\<forall>j < i. sentiment_score text (sentiment_classes init_analyzer ! j) < sentiment_score text r)))"
  using keyword_classify_result [OF well_formed_sentiment_table] assms
  by (simp add: rule_based_sentiment_def)

theorem rule_based_sentiment_argmax_witness:
  "rule_based_sentiment init_analyzer sample_input = Inr (Some ''Anxious'')
   \<and> sentiment_score sample_input ''Anxious'' = 1
   \<and> sentiment_score sample_input ''Reassured'' \<le> 1"
proof -
  have h: "rule_based_sentiment init_analyzer sample_input = Inr (Some ''Anxious'')"
    by (simp add: classifier_eval)
  have s: "sentiment_score sample_input ''Anxious'' = 1"
    by (simp add: keyword_score_def classifier_eval)
  from rule_based_sentiment_argmax [OF h] s h show ?thesis by (simp add: init_analyzer_def)
qed

text \<open>C16: the returned intent has the highest keyword
  score; score 0 means the default Sharing information; with a positive score every
  intent listed before it scores strictly less.\<close>

theorem rule_based_intent_argmax:
  assumes "rule_based_intent init_analyzer text = Inr (Some r)"
  shows "(\<forall>c \<in> set (intent_classes init_analyzer). intent_score text c \<le> intent_score text r)
    \<and> (intent_score text r = 0 \<longrightarrow> r = ''Sharing information'')
    \<and> (0 < intent_score text r \<longrightarrow>
         (\<exists>i < length (intent_classes init_analyzer). intent_classes init_analyzer ! i = r \<and>
            (\<forall>j < i. intent_score text (intent_classes init_analyzer ! j) < intent_score text r)))"
  using keyword_classify_result [OF well_formed_intent_table] assms
  by (simp add: rule_based_intent_def)

theorem rule_based_intent_argmax_witness:
  "rule_based_intent init_analyzer sample_input = Inr (Some ''Reporting symptoms'')
   \<and> intent_score sample_input ''Reporting symptoms'' = 1
   \<and> intent_score sample_input ''Expressing concern'' = 1
   \<and> intent_score sample_input ''Seeking reassurance'' \<le> 1"
proof -
  have h: "rule_based_intent init_analyzer sample_input = Inr (Some ''Reporting symptoms'')"
    by (simp add: classifier_eval)
  have s: "intent_score sample_input ''Reporting symptoms'' = 1"
    "intent_score sample_input ''Expressing concern'' = 1"
    by (simp_all add: keyword_score_def classifier_eval)
  from rule_based_intent_argmax [OF h] s h show ?thesis by (simp add: init_analyzer_def)
qed

section \<open>Lemmas: the wrappers and the patient-line extraction\<close>

lemma analyze_sentiment_eq: "analyze_sentiment self text = rule_based_sentiment self text"
  by (simp add: analyze_sentiment_def split: sum.split)

lemma analyze_intent_eq: "analyze_intent self text = rule_based_intent self text"
  by (simp add: analyze_intent_def split: sum.split)

lemma patient_tag_facts:
  "patient_tag \<noteq> []" "\<not> is_space (hd patient_tag)" "\<not> is_space (last patient_tag)"
  "newline \<notin> set patient_tag" "\<not> is_space (CHR ''P'')"
  by (simp_all add: patient_tag_def newline_def is_space_def)

lemma py_rstrip_keeps_prefix:
  assumes "p \<noteq> []" and "\<not> is_space (last p)"
  shows "\<exists>s'. py_rstrip (p @ s) = p @ s'"
proof (cases "\<forall>c \<in> set s. is_space c")
  case True
  have "dropWhile is_space (rev p) = rev p"
    using assms by (simp add: dropWhile_eq_self_iff hd_rev)
  with True dropWhile_append2 [of "rev s" is_space "rev p"] have "py_rstrip (p @ s) = p"
    by (simp add: py_rstrip_def)
  then show ?thesis by (intro exI [of _ "[]"]) simp
next
  case False
  then obtain c where "c \<in> set (rev s)" "\<not> is_space c" by auto
  then show ?thesis by (auto simp: py_rstrip_def dropWhile_append1)
qed

lemma patient_line_kept: "py_startswith patient_tag (py_strip (patient_tag @ CHR '' '' # u))"
proof -
  have "py_lstrip (patient_tag @ CHR '' '' # u) = patient_tag @ CHR '' '' # u"
    by (simp add: py_lstrip_def patient_tag_def is_space_def)
  moreover obtain s' where "py_rstrip (patient_tag @ CHR '' '' # u) = patient_tag @ s'"
    using py_rstrip_keeps_prefix [OF patient_tag_facts(1,3)] by blast
  ultimately show ?thesis by (simp add: py_strip_def py_startswith_def)
qed

lemma patient_line_extract:
  assumes "\<not> py_in patient_tag u" and "py_strip u = u"
  shows "py_strip (py_replace patient_tag [] (patient_tag @ CHR '' '' # u)) = u"
proof -
  have "\<not> py_in patient_tag (CHR '' '' # u)"
    using assms(1) by (simp add: patient_tag_def py_startswith_def)
  then have "py_replace patient_tag [] (patient_tag @ CHR '' '' # u) = '' '' @ u"
    using patient_tag_facts(1)
    by (simp add: py_replace_def replace_scan_prefix replace_scan_no_occurrence)
  moreover have "py_strip ('' '' @ u @ []) = py_strip u"
    by (rule py_strip_spaces_around) (simp_all add: is_space_def)
  ultimately show ?thesis using assms(2) by simp
qed

text \<open>The whole analysis in terms of the specification (the try/except wrappers are transparent).\<close>

lemma analyze_patient_dialogue_eq:
  "analyze_patient_dialogue init_analyzer transcript =
     Inr \<lparr>Sentiment = classify_spec (sentiment_classes init_analyzer) (sentiment_keywords init_analyzer)
            ''Neutral'' (extract_patient_dialogue transcript),
          Intent = classify_spec (intent_classes init_analyzer) (intent_keywords init_analyzer)
            ''Sharing information'' (extract_patient_dialogue transcript)\<rparr>"
  using keyword_classify_refines_spec [OF well_formed_sentiment_table]
    keyword_classify_refines_spec [OF well_formed_intent_table]
  by (simp add: analyze_patient_dialogue_def analyze_sentiment_eq analyze_intent_eq
      rule_based_sentiment_def rule_based_intent_def Let_def)

section \<open>Claims: errors, case, the whole analysis, the patient lines\<close>

text \<open>C18: \<open>scores[c] += 1\<close> raises \<open>KeyError c\<close>
  exactly when \<open>c\<close> is the class of the first table entry, in table order, whose
  class is not in the class list and one of whose keywords occurs in the
  lowercased text; the error propagates out of the classifier.\<close>

theorem keyword_classify_key_error:
  assumes "distinct classes"
  shows "keyword_classify classes table dflt text = Inl (KeyError c) \<longleftrightarrow>
    map_option fst (find (\<lambda>(c', kws). c' \<notin> set classes \<and> any_in kws (py_lower text)) table) = Some c"
  by (auto simp: keyword_classify_outcome [OF assms] py_max_def split: option.split list.split)

theorem keyword_classify_key_error_witness:
  "keyword_classify [''Anxious''] [(''Anxious'', [''worried'']), (''Calm'', [''ok''])] ''Neutral''
     ''Worried? OK'' = Inl (KeyError ''Calm'')"
  using keyword_classify_key_error [of "[''Anxious'']" "[(''Anxious'', [''worried'']), (''Calm'', [''ok''])]"
      "''Neutral''" "''Worried? OK''" "''Calm''"]
  by (simp add: any_in_def scan_simps)

text \<open>C19: \<open>max(scores.values())\<close> raises
  \<open>ValueError\<close> exactly when the class list is empty and no keyword of the table
  occurs in the lowercased text (with no classes, a keyword hit raises
  \<open>KeyError\<close> first).\<close>

theorem keyword_classify_value_error:
  assumes "distinct classes"
  shows "(\<exists>msg. keyword_classify classes table dflt text = Inl (ValueError msg)) \<longleftrightarrow>
    classes = [] \<and> (\<forall>(c, kws) \<in> set table. \<not> any_in kws (py_lower text))"
  by (auto simp: keyword_classify_outcome [OF assms] py_max_def find_None_iff
      split: option.split list.split) (fastforce dest: find_Some_mem)

theorem keyword_classify_value_error_witness:
  "keyword_classify [] [(''Calm'', [''ok''])] ''Neutral'' ''Fine.'' =
     Inl (ValueError ''max() arg is an empty sequence'')"
  using keyword_classify_value_error [of "[]" "[(''Calm'', [''ok''])]" "''Neutral''" "''Fine.''"]
  by (auto simp: any_in_def scan_simps keyword_classify_def init_scores_def py_max_def)

text \<open>C20: both classifiers lowercase
  their input first, so lowercasing the text beforehand changes neither result.\<close>

theorem rule_based_classifiers_case_insensitive:
  "rule_based_sentiment self (py_lower text) = rule_based_sentiment self text
   \<and> rule_based_intent self (py_lower text) = rule_based_intent self text"
  by (simp add: rule_based_sentiment_def rule_based_intent_def keyword_classify_def)

text \<open>C11: the analysis of a transcript never raises
  and never yields None: its Sentiment and Intent are the specified classifications of
  the extracted patient dialogue (the try/except wrappers are transparent).\<close>

theorem analyze_patient_dialogue_spec:
  "\<exists>s i. analyze_patient_dialogue init_analyzer transcript = Inr \<lparr>Sentiment = Some s, Intent = Some i\<rparr>
     \<and> classify_spec (sentiment_classes init_analyzer) (sentiment_keywords init_analyzer) ''Neutral''
         (extract_patient_dialogue transcript) = Some s
     \<and> classify_spec (intent_classes init_analyzer) (intent_keywords init_analyzer) ''Sharing information''
         (extract_patient_dialogue transcript) = Some i"
proof -
  let ?d = "extract_patient_dialogue transcript"
  obtain s where s: "classify_spec (sentiment_classes init_analyzer) (sentiment_keywords init_analyzer)
      ''Neutral'' ?d = Some s"
    using classify_spec_Some well_formed_sentiment_table by (fastforce simp: well_formed_table_def)
  obtain i where i: "classify_spec (intent_classes init_analyzer) (intent_keywords init_analyzer)
      ''Sharing information'' ?d = Some i"
    using classify_spec_Some well_formed_intent_table by (fastforce simp: well_formed_table_def)
  from s i show ?thesis by (simp add: analyze_patient_dialogue_eq)
qed

text \<open>On the assignment's sample sentence the script
  prints Sentiment Anxious (worried ties with better, Anxious comes first) and Intent
  Reporting symptoms (pain ties with worried, Reporting symptoms comes first).\<close>

theorem sample_input_analysis:
  "analyze_sentiment init_analyzer sample_input = Inr (Some ''Anxious'')
   \<and> analyze_intent init_analyzer sample_input = Inr (Some ''Reporting symptoms'')"
  by (simp add: analyze_sentiment_eq analyze_intent_eq classifier_eval)

text \<open>C12: a transcript made of lines
  \<open>Patient: u\<close> gives back the utterances joined by single spaces, provided no
  utterance contains a newline or the tag and none has surrounding whitespace.\<close>

theorem extract_patient_dialogue_roundtrip:
  assumes "us \<noteq> []"
    and "\<forall>u \<in> set us. newline \<notin> set u \<and> \<not> py_in patient_tag u \<and> py_strip u = u"
  shows "extract_patient_dialogue (py_join [newline] (map (\<lambda>u. patient_tag @ '' '' @ u) us))
         = py_join '' '' us"
proof -
  let ?lines = "map (\<lambda>u. patient_tag @ '' '' @ u) us"
  have "\<forall>w \<in> set ?lines. newline \<notin> set w"
    using assms(2) patient_tag_facts(4) by (auto simp: newline_def)
  then have "py_split newline (py_join [newline] ?lines) = ?lines"
    using assms(1) by (simp add: py_split_join)
  moreover have "filter (\<lambda>line. py_startswith patient_tag (py_strip line)) ?lines = ?lines"
    using patient_line_kept by (simp add: filter_id_conv)
  moreover have "map (\<lambda>line. py_strip (py_replace patient_tag [] line)) ?lines = us"
    using assms(2) by (induction us) (simp_all add: patient_line_extract)
  ultimately show ?thesis by (simp add: extract_patient_dialogue_def)
qed

theorem extract_patient_dialogue_roundtrip_witness:
  "extract_patient_dialogue (py_join [newline] (map (\<lambda>u. patient_tag @ '' '' @ u)
      [''I feel better.'', ''It was fine.''])) = ''I feel better. It was fine.''"
  using extract_patient_dialogue_roundtrip [of "[''I feel better.'', ''It was fine.'']"]
  by (simp add: patient_tag_def newline_def scan_simps py_strip_def py_lstrip_def py_rstrip_def)

end
