(* ===== verification/PatientName.thy ===== *)
theory PatientName
  imports PyStr
begin

text \<open>
  Model of \<open>MedicalNLPPipeline.extract_patient_name\<close>
  (\<open>src/medical-nlp-pipeline.py\<close>, lines 28--35): the patterns
  \<open>M[rs]\.?\s+([A-Z][a-z]+)\<close> and \<open>Miss\s+([A-Z][a-z]+)\<close> are tried in
  turn with \<open>re.findall\<close>, and the first group of the first pattern that matches
  anywhere is the name; otherwise \<open>Unknown\<close>. Each pattern is an executable matcher
  from a position of the text (the suffix from there) to the captured group and the
  length of the match. The matchers need no backtracking: after an optional \<open>.\<close>
  only whitespace may follow, and \<open>[A-Z]\<close> cannot match whitespace, so the greedy
  choices of \<open>\.?\<close> and \<open>\s+\<close> are the only ones that can succeed; \<open>[a-z]+\<close>
  is greedy and nothing follows it.
\<close>

section \<open>Character classes\<close>

definition is_ascii_upper :: "char \<Rightarrow> bool" where
  "is_ascii_upper c = (let n = of_char c :: nat in 65 \<le> n \<and> n \<le> 90)"

definition is_ascii_lower :: "char \<Rightarrow> bool" where
  "is_ascii_lower c = (let n = of_char c :: nat in 97 \<le> n \<and> n \<le> 122)"

type_synonym matcher = "string \<Rightarrow> (string \<times> nat) option"

section \<open>The two patterns\<close>

text \<open>\<open>\s+([A-Z][a-z]+)\<close>: the group and the length consumed.\<close>

definition match_spaced_name :: matcher where
  "match_spaced_name s =
     (let ws = takeWhile is_space s; r = dropWhile is_space s in
      if ws = [] then None
      else case r of
        [] \<Rightarrow> None
      | u # r' \<Rightarrow>
          (let lows = takeWhile is_ascii_lower r' in
           if is_ascii_upper u \<and> lows \<noteq> [] then Some (u # lows, length ws + 1 + length lows)
           else None))"

text \<open>\<open>M[rs]\.?\s+([A-Z][a-z]+)\<close>.\<close>

definition match_mr_ms :: matcher where
  "match_mr_ms s =
     (case s of
        c1 # c2 # r \<Rightarrow>
          if c1 = CHR ''M'' \<and> (c2 = CHR ''r'' \<or> c2 = CHR ''s'') then
            (let dot = (if r \<noteq> [] \<and> hd r = CHR ''.'' then 1 else 0) in
             map_option (\<lambda>(g, n). (g, 2 + dot + n)) (match_spaced_name (drop dot r)))
          else None
      | _ \<Rightarrow> None)"

text \<open>\<open>Miss\s+([A-Z][a-z]+)\<close>.\<close>

definition match_miss :: matcher where
  "match_miss s =
     (if take 4 s = ''Miss'' then map_option (\<lambda>(g, n). (g, 4 + n)) (match_spaced_name (drop 4 s))
      else None)"

section \<open>\<open>re.findall\<close> and the name\<close>

text \<open>
  \<open>re.findall\<close> scans from the left: where the pattern matches, the group is
  recorded and the scan resumes after the match; elsewhere it moves on by one
  character. An empty match moves on by one character as well.
\<close>

function findall :: "matcher \<Rightarrow> string \<Rightarrow> string list" where
  "findall m [] = (case m [] of Some (g, n) \<Rightarrow> [g] | None \<Rightarrow> [])"
| "findall m (c # s) =
     (case m (c # s) of
        Some (g, n) \<Rightarrow> g # findall m (drop (max 1 n) (c # s))
      | None \<Rightarrow> findall m s)"
  by pat_completeness auto
termination
  by (relation "measure (\<lambda>(m, s). length s)") auto

definition name_patterns :: "matcher list" where
  "name_patterns = [match_mr_ms, match_miss]"

fun first_findall :: "matcher list \<Rightarrow> string \<Rightarrow> string option" where
  "first_findall [] text = None"
| "first_findall (p # ps) text =
     (case findall p text of g # _ \<Rightarrow> Some g | [] \<Rightarrow> first_findall ps text)"

definition extract_patient_name :: "string \<Rightarrow> string" where
  "extract_patient_name text =
     (case first_findall name_patterns text of Some g \<Rightarrow> g | None \<Rightarrow> ''Unknown'')"

section \<open>Specifications\<close>

text \<open>The reference: the group of the match at the leftmost position.\<close>

fun leftmost_match :: "matcher \<Rightarrow> string \<Rightarrow> string option" where
  "leftmost_match m [] = map_option fst (m [])"
| "leftmost_match m (c # s) = (case m (c # s) of Some (g, n) \<Rightarrow> Some g | None \<Rightarrow> leftmost_match m s)"

text \<open>A name as the group \<open>[A-Z][a-z]+\<close> captures it.\<close>

fun name_shaped :: "string \<Rightarrow> bool" where
  "name_shaped [] = False"
| "name_shaped (u # lows) = (is_ascii_upper u \<and> lows \<noteq> [] \<and> list_all is_ascii_lower lows)"

section \<open>Lemmas: matchers\<close>

lemma findall_head_leftmost:
  "(case findall m s of [] \<Rightarrow> None | g # _ \<Rightarrow> Some g) = leftmost_match m s"
  by (induction s) (auto split: option.split list.split)

lemma leftmost_match_suffix:
  "leftmost_match m s = Some g \<Longrightarrow> \<exists>t n. suffix t s \<and> m t = Some (g, n)"
proof (induction s)
  case Nil
  then show ?case by auto
next
  case (Cons c s)
  show ?case
  proof (cases "m (c # s)")
    case None
    with Cons obtain t n where "suffix t s" "m t = Some (g, n)" by auto
    then show ?thesis by (auto intro: suffix_ConsI)
  next
    case (Some gn)
    with Cons.prems show ?thesis by (cases gn) auto
  qed
qed

lemma is_ascii_upper_not_space: "is_ascii_upper c \<Longrightarrow> \<not> is_space c"
  by (simp add: is_ascii_upper_def is_space_def Let_def)

lemma is_ascii_lower_not_space: "is_ascii_lower c \<Longrightarrow> \<not> is_space c"
  by (simp add: is_ascii_lower_def is_space_def Let_def)

lemma match_spaced_name_Some:
  "match_spaced_name s = Some (g, n) \<Longrightarrow> name_shaped g \<and> sublist g s"
proof -
  assume h: "match_spaced_name s = Some (g, n)"
  let ?ws = "takeWhile is_space s" and ?r = "dropWhile is_space s"
  obtain u r' where r: "?r = u # r'" and ws: "?ws \<noteq> []"
    using h by (auto simp: match_spaced_name_def Let_def split: list.splits if_splits)
  let ?lows = "takeWhile is_ascii_lower r'"
  from h r have g: "g = u # ?lows" and u: "is_ascii_upper u" and lows: "?lows \<noteq> []"
    by (auto simp: match_spaced_name_def Let_def split: if_splits)
  have "list_all is_ascii_lower ?lows"
    by (simp add: list_all_iff) (meson set_takeWhileD)
  with u lows g have "name_shaped g" by simp
  moreover have "s = ?ws @ u # ?lows @ dropWhile is_ascii_lower r'"
    using r takeWhile_dropWhile_id [of is_space s] takeWhile_dropWhile_id [of is_ascii_lower r']
    by simp
  then have "sublist g s" using g by (metis append_Cons sublist_appendI)
  ultimately show ?thesis ..
qed

lemma match_mr_ms_Some: "match_mr_ms s = Some (g, n) \<Longrightarrow> name_shaped g \<and> sublist g s"
proof -
  assume h: "match_mr_ms s = Some (g, n)"
  then obtain c1 c2 r where s: "s = c1 # c2 # r"
    by (auto simp: match_mr_ms_def split: list.splits)
  let ?d = "if r \<noteq> [] \<and> hd r = CHR ''.'' then 1 else 0 :: nat"
  from h s obtain n' where "match_spaced_name (drop ?d r) = Some (g, n')"
    by (auto simp: match_mr_ms_def Let_def split: if_splits)
  then have "name_shaped g" "sublist g (drop ?d r)" by (auto dest: match_spaced_name_Some)
  moreover have "sublist (drop ?d r) s" using s
    by (metis append_take_drop_id sublist_Cons_right sublist_append_leftI)
  ultimately show ?thesis by (auto intro: sublist_order.order_trans)
qed

lemma match_miss_Some: "match_miss s = Some (g, n) \<Longrightarrow> name_shaped g \<and> sublist g s"
proof -
  assume h: "match_miss s = Some (g, n)"
  then obtain n' where "match_spaced_name (drop 4 s) = Some (g, n')"
    by (auto simp: match_miss_def split: if_splits)
  then have "name_shaped g" "sublist g (drop 4 s)" by (auto dest: match_spaced_name_Some)
  moreover have "sublist (drop 4 s) s" by (metis append_take_drop_id sublist_append_leftI)
  ultimately show ?thesis by (auto intro: sublist_order.order_trans)
qed

lemma name_patterns_Some:
  "p \<in> set name_patterns \<Longrightarrow> p s = Some (g, n) \<Longrightarrow> name_shaped g \<and> sublist g s"
  by (auto simp: name_patterns_def dest: match_mr_ms_Some match_miss_Some)

lemma first_findall_leftmost:
  "first_findall ps text = Some g \<Longrightarrow> \<exists>p \<in> set ps. leftmost_match p text = Some g"
proof (induction ps)
  case (Cons p ps)
  then show ?case
    using findall_head_leftmost [of p "text"] by (auto split: list.splits)
qed simp

lemma match_spaced_name_intro:
  assumes "ws \<noteq> []" and "list_all is_space ws" and "name_shaped name"
    and "rest = [] \<or> \<not> is_ascii_lower (hd rest)"
  shows "match_spaced_name (ws @ name @ rest) = Some (name, length ws + length name)"
proof -
  obtain u lows where name: "name = u # lows" and u: "is_ascii_upper u" and lows: "lows \<noteq> []"
    and low: "list_all is_ascii_lower lows"
    using assms(3) by (cases name) auto
  have tw: "takeWhile is_space (ws @ name @ rest) = ws"
    using assms(2) u by (simp add: name list_all_iff takeWhile_append2 is_ascii_upper_not_space)
  have dw: "dropWhile is_space (ws @ name @ rest) = u # lows @ rest"
    using assms(2) u by (simp add: name list_all_iff dropWhile_append2 is_ascii_upper_not_space)
  have "takeWhile is_ascii_lower (lows @ rest) = lows"
    using low assms(4) by (cases rest) (simp_all add: list_all_iff takeWhile_append2)
  with tw dw u lows assms(1) show ?thesis
    by (simp add: match_spaced_name_def Let_def name)
qed

section \<open>Claims: the patient name\<close>

text \<open>C9: taking the first element of
  \<open>re.findall\<close> is taking the leftmost match: the name is the group of the leftmost
  \<open>Mr/Ms\<close> match if there is one anywhere, else the group of the leftmost \<open>Miss\<close>
  match, else Unknown.\<close>

theorem extract_patient_name_leftmost:
  "extract_patient_name text =
     (case leftmost_match match_mr_ms text of
        Some g \<Rightarrow> g
      | None \<Rightarrow> (case leftmost_match match_miss text of Some g \<Rightarrow> g | None \<Rightarrow> ''Unknown''))"
  using findall_head_leftmost [of match_mr_ms "text"] findall_head_leftmost [of match_miss "text"]
  by (auto simp: extract_patient_name_def name_patterns_def split: list.splits option.splits)

text \<open>C13: the name returned is Unknown or a
  capitalised word (one ASCII capital, then one or more ASCII lowercase letters) that
  occurs in the transcript.\<close>

theorem extract_patient_name_shape:
  "extract_patient_name text = ''Unknown''
   \<or> (name_shaped (extract_patient_name text) \<and> py_in (extract_patient_name text) text)"
proof (cases "first_findall name_patterns text")
  case (Some g)
  then obtain p where p: "p \<in> set name_patterns" and lm: "leftmost_match p text = Some g"
    using first_findall_leftmost by blast
  then obtain t n where "suffix t text" "p t = Some (g, n)"
    using leftmost_match_suffix by blast
  with p have "name_shaped g" "sublist g text"
    using name_patterns_Some suffix_imp_sublist sublist_order.order_trans by blast+
  with Some show ?thesis by (simp add: extract_patient_name_def py_in_iff_sublist)
qed (simp add: extract_patient_name_def)

text \<open>C14: a transcript that starts with
  Mr, Ms, Mr. or Ms., whitespace and a capitalised name (not followed by a lowercase
  letter) yields exactly that name.\<close>

theorem extract_patient_name_title_roundtrip:
  assumes "title \<in> {''Mr'', ''Ms'', ''Mr.'', ''Ms.''}" and "ws \<noteq> []" and "list_all is_space ws"
    and "name_shaped name" and "rest = [] \<or> \<not> is_ascii_lower (hd rest)"
  shows "extract_patient_name (title @ ws @ name @ rest) = name"
proof -
  have sp: "match_spaced_name (ws @ name @ rest) = Some (name, length ws + length name)"
    using assms(2-5) by (rule match_spaced_name_intro)
  have nodot: "hd (ws @ name @ rest) \<noteq> CHR ''.''"
    using assms(2,3) by (cases ws) (auto simp: is_space_def)
  have "\<exists>n. match_mr_ms (title @ ws @ name @ rest) = Some (name, n)"
    using assms(1) sp nodot assms(2) by (auto simp: match_mr_ms_def)
  then obtain n where m: "match_mr_ms (title @ ws @ name @ rest) = Some (name, n)" by blast
  obtain c s where cs: "title @ ws @ name @ rest = c # s" using assms(1) by auto
  have "findall match_mr_ms (c # s) = name # findall match_mr_ms (drop (max 1 n) (c # s))"
    using m cs by simp
  with cs show ?thesis by (simp add: extract_patient_name_def name_patterns_def)
qed

theorem extract_patient_name_title_roundtrip_witness:
  "extract_patient_name (''Ms.'' @ '' '' @ ''Jones'' @ ''. How are you?'') = ''Jones''"
  by (rule extract_patient_name_title_roundtrip)
    (simp_all add: is_space_def is_ascii_upper_def is_ascii_lower_def)

end
