(* ===== verification/MedicalNLP.thy ===== *)
theory MedicalNLP
  imports PatientName
begin

text \<open>
  Model of \<open>src/medical-nlp-pipeline.py\<close>, class \<open>MedicalNLPPipeline\<close>, apart
  from \<open>extract_patient_name\<close> (theory \<open>PatientName\<close>). The object's state is the
  record \<open>medical_nlp_pipeline\<close>: the three pretrained models are functions supplied
  by the environment (the NER pipeline from text to entities, spaCy's sentence
  segmentation, KeyBERT's ranked keyword pairs), and \<open>categories\<close> is the keyword
  table \<open>__init__\<close> builds. Every operation is a function of the object and its
  arguments; none changes the object.
\<close>

section \<open>State\<close>

text \<open>An aggregated entity of the Hugging Face NER pipeline; only \<open>word\<close> is read.\<close>

record ner_entity =
  entity_group :: string
  word :: string

record 'score medical_nlp_pipeline =
  ner :: "string \<Rightarrow> ner_entity list"
  nlp_sents :: "string \<Rightarrow> string list"
  kw_model :: "string \<Rightarrow> nat \<Rightarrow> (string \<times> 'score) list"
  categories :: "(string, string list) pydict"

definition init_categories :: "(string, string list) pydict" where
  "init_categories =
     [(''SYMPTOMS'', [''pain'', ''discomfort'', ''ache'', ''hurt'', ''injured'', ''stiff'', ''trouble'', ''difficulty'']),
      (''TREATMENT'', [''physiotherapy'', ''therapy'', ''painkillers'', ''medication'', ''treatment'', ''session'']),
      (''DIAGNOSIS'', [''whiplash'', ''injury'', ''damage'', ''condition'', ''diagnosed'', ''assessment'']),
      (''PROGNOSIS'', [''recovery'', ''improve'', ''better'', ''future'', ''expect'', ''progress''])]"

definition init_pipeline ::
  "(string \<Rightarrow> ner_entity list) \<Rightarrow> (string \<Rightarrow> string list) \<Rightarrow> (string \<Rightarrow> nat \<Rightarrow> (string \<times> 'score) list)
   \<Rightarrow> 'score medical_nlp_pipeline" where
  "init_pipeline ner_model sentence_splitter keybert =
     \<lparr>ner = ner_model, nlp_sents = sentence_splitter, kw_model = keybert,
      categories = init_categories\<rparr>"

section \<open>Entity categorisation\<close>

record categorized =
  Symptoms :: "string list"
  Treatment :: "string list"
  Diagnosis :: "string list"
  Prognosis :: "string list"

definition empty_categorized :: categorized where
  "empty_categorized = \<lparr>Symptoms = [], Treatment = [], Diagnosis = [], Prognosis = []\<rparr>"

text \<open>The \<open>if/elif\<close> chain from a category name to the list appended to.\<close>

definition add_to_category :: "string \<Rightarrow> string \<Rightarrow> categorized \<Rightarrow> categorized" where
  "add_to_category category w c =
     (if category = ''SYMPTOMS'' then c\<lparr>Symptoms := Symptoms c @ [w]\<rparr>
      else if category = ''TREATMENT'' then c\<lparr>Treatment := Treatment c @ [w]\<rparr>
      else if category = ''DIAGNOSIS'' then c\<lparr>Diagnosis := Diagnosis c @ [w]\<rparr>
      else if category = ''PROGNOSIS'' then c\<lparr>Prognosis := Prognosis c @ [w]\<rparr>
      else c)"

text \<open>The inner loop over \<open>self.categories.items()\<close> for one entity: no \<open>break\<close>,
  so an entity is added to every category one of whose keywords it contains.\<close>

fun categorize_word :: "(string, string list) pydict \<Rightarrow> string \<Rightarrow> categorized \<Rightarrow> categorized" where
  "categorize_word [] w c = c"
| "categorize_word ((category, kws) # rest) w c =
     categorize_word rest w (if any_in kws (py_lower w) then add_to_category category w c else c)"

fun categorize_loop :: "(string, string list) pydict \<Rightarrow> ner_entity list \<Rightarrow> categorized \<Rightarrow> categorized" where
  "categorize_loop cats [] c = c"
| "categorize_loop cats (e # es) c = categorize_loop cats es (categorize_word cats (word e) c)"

definition categorize_entities :: "'score medical_nlp_pipeline \<Rightarrow> ner_entity list \<Rightarrow> categorized" where
  "categorize_entities self entities = categorize_loop (categories self) entities empty_categorized"

section \<open>Current status and keywords\<close>

definition status_phrases :: "string list" where
  "status_phrases = [''still experiencing'', ''current condition'', ''now i'', ''occasional'', ''currently'']"

text \<open>The sentences are those of \<open>nlp(text.lower())\<close>, so the sentence returned is
  lowercase text; the loop returns the first sentence holding a status phrase.\<close>

fun first_status_sentence :: "string list \<Rightarrow> string option" where
  "first_status_sentence [] = None"
| "first_status_sentence (s # ss) =
     (if any_in status_phrases (py_lower s) then Some s else first_status_sentence ss)"

definition extract_current_status :: "'score medical_nlp_pipeline \<Rightarrow> string \<Rightarrow> string" where
  "extract_current_status self text =
     (case first_status_sentence (nlp_sents self (py_lower text)) of
        Some s \<Rightarrow> s
      | None \<Rightarrow> ''Status not explicitly mentioned'')"

definition extract_keywords :: "'score medical_nlp_pipeline \<Rightarrow> string \<Rightarrow> nat \<Rightarrow> string list" where
  "extract_keywords self text top_n = map fst (kw_model self text top_n)"

section \<open>The summary\<close>

text \<open>\<open>if x not in xs: xs.append(x)\<close>.\<close>

definition append_if_absent :: "string \<Rightarrow> string list \<Rightarrow> string list" where
  "append_if_absent x xs = (if x \<in> set xs then xs else xs @ [x])"

text \<open>
  The "custom logic for the specific conversation" of \<open>summarize_transcript\<close>:
  seven rules on the lowercased transcript \<open>t\<close>, one definition per \<open>if\<close> block,
  applied in the source's order. Every rule but the prognosis rule checks that its
  string is not yet in the list.
\<close>

definition rule_whiplash :: "string \<Rightarrow> categorized \<Rightarrow> categorized" where
  "rule_whiplash t c =
     (if py_in ''whiplash'' t \<and> py_in ''car accident'' t
      then c\<lparr>Diagnosis := append_if_absent ''Whiplash injury'' (Diagnosis c)\<rparr> else c)"

definition rule_physiotherapy :: "string \<Rightarrow> categorized \<Rightarrow> categorized" where
  "rule_physiotherapy t c =
     (if py_in ''physiotherapy'' t \<and> py_in ''ten'' t
      then c\<lparr>Treatment := append_if_absent ''10 physiotherapy sessions'' (Treatment c)\<rparr> else c)"

definition rule_painkillers :: "string \<Rightarrow> categorized \<Rightarrow> categorized" where
  "rule_painkillers t c =
     (if py_in ''painkillers'' t
      then c\<lparr>Treatment := append_if_absent ''Painkillers'' (Treatment c)\<rparr> else c)"

definition rule_full_recovery :: "string \<Rightarrow> categorized \<Rightarrow> categorized" where
  "rule_full_recovery t c =
     (if py_in ''full recovery'' t \<and> py_in ''six months'' t
      then c\<lparr>Prognosis := Prognosis c @ [''Full recovery expected within six months'']\<rparr> else c)"

definition rule_neck_pain :: "string \<Rightarrow> categorized \<Rightarrow> categorized" where
  "rule_neck_pain t c =
     (if py_in ''neck'' t \<and> py_in ''pain'' t
      then c\<lparr>Symptoms := append_if_absent ''Neck pain'' (Symptoms c)\<rparr> else c)"

definition rule_back_pain :: "string \<Rightarrow> categorized \<Rightarrow> categorized" where
  "rule_back_pain t c =
     (if py_in ''back'' t \<and> py_in ''pain'' t
      then c\<lparr>Symptoms := append_if_absent ''Back pain'' (Symptoms c)\<rparr> else c)"

definition rule_head_impact :: "string \<Rightarrow> categorized \<Rightarrow> categorized" where
  "rule_head_impact t c =
     (if py_in ''head'' t \<and> (py_in ''hit'' t \<or> py_in ''impact'' t)
      then c\<lparr>Symptoms := append_if_absent ''Head impact'' (Symptoms c)\<rparr> else c)"

definition apply_custom_rules :: "string \<Rightarrow> categorized \<Rightarrow> categorized" where
  "apply_custom_rules t c =
     rule_head_impact t (rule_back_pain t (rule_neck_pain t (rule_full_recovery t
       (rule_painkillers t (rule_physiotherapy t (rule_whiplash t c))))))"

text \<open>The summary dictionary: the four category lists and three more keys.\<close>

record summary = categorized +
  Patient_Name :: string
  Current_Status :: string
  Keywords :: "string list"

definition summarize_transcript :: "'score medical_nlp_pipeline \<Rightarrow> string \<Rightarrow> summary" where
  "summarize_transcript self transcript =
     (let patient_name = extract_patient_name transcript;
          entities = ner self transcript;
          categorized = categorize_entities self entities;
          current_status = extract_current_status self transcript;
          keywords = extract_keywords self transcript 10;
          t = py_lower transcript;
          c = apply_custom_rules t categorized;
          status = (if py_in ''occasional'' t \<and> py_in ''back'' t then ''Occasional backache''
                    else current_status)
      in \<lparr>Symptoms = Symptoms c, Treatment = Treatment c, Diagnosis = Diagnosis c,
          Prognosis = Prognosis c, Patient_Name = patient_name, Current_Status = status,
          Keywords = take 5 keywords\<rparr>)"

section \<open>Lemmas: categorisation\<close>

text \<open>The list of a category, by the name the keyword table uses.\<close>

definition category_list :: "string \<Rightarrow> categorized \<Rightarrow> string list" where
  "category_list n c =
     (if n = ''SYMPTOMS'' then Symptoms c else if n = ''TREATMENT'' then Treatment c
      else if n = ''DIAGNOSIS'' then Diagnosis c else if n = ''PROGNOSIS'' then Prognosis c else [])"

definition category_names :: "string list" where
  "category_names = [''SYMPTOMS'', ''TREATMENT'', ''DIAGNOSIS'', ''PROGNOSIS'']"

lemma category_list_add:
  "category_list n (add_to_category m w c) =
     category_list n c @ (if m = n \<and> n \<in> set category_names then [w] else [])"
  by (auto simp: category_list_def add_to_category_def category_names_def)

lemma category_list_categorize_word:
  "category_list n (categorize_word cats w c) =
     category_list n c @
       concat (map (\<lambda>(m, kws). if m = n \<and> n \<in> set category_names \<and> any_in kws (py_lower w) then [w] else []) cats)"
  by (induction cats arbitrary: c) (auto simp: category_list_add)

lemma category_list_categorize_loop:
  "category_list n (categorize_loop cats es c) =
     category_list n c @
       concat (map (\<lambda>e. concat (map (\<lambda>(m, kws).
         if m = n \<and> n \<in> set category_names \<and> any_in kws (py_lower (word e)) then [word e] else []) cats)) es)"
  by (induction es arbitrary: c) (simp_all add: category_list_categorize_word)

definition category_keywords :: "string \<Rightarrow> string list" where
  "category_keywords n = (case map_of init_categories n of Some kws \<Rightarrow> kws | None \<Rightarrow> [])"

lemma init_categories_hits:
  "n \<in> set category_names \<Longrightarrow>
   concat (map (\<lambda>(m, kws). if m = n \<and> any_in kws s then [w] else []) init_categories)
     = (if any_in (category_keywords n) s then [w] else [])"
  by (auto simp: init_categories_def category_names_def category_keywords_def)

lemma concat_map_singleton_filter:
  "concat (map (\<lambda>x. if P (f x) then [f x] else []) xs) = filter P (map f xs)"
  by (induction xs) auto

lemma category_list_init_pipeline:
  assumes "n \<in> set category_names"
  shows "category_list n (categorize_entities (init_pipeline nm ss kb) es) =
     filter (\<lambda>w. any_in (category_keywords n) (py_lower w)) (map word es)"
proof -
  have "category_list n empty_categorized = []"
    by (simp add: category_list_def empty_categorized_def)
  with assms have "category_list n (categorize_entities (init_pipeline nm ss kb) es) =
      concat (map (\<lambda>e. if any_in (category_keywords n) (py_lower (word e)) then [word e] else []) es)"
    by (simp add: categorize_entities_def init_pipeline_def category_list_categorize_loop
        init_categories_hits)
  then show ?thesis
    using concat_map_singleton_filter [of "\<lambda>w. any_in (category_keywords n) (py_lower w)" word es]
    by simp
qed

section \<open>Lemmas: the custom rules\<close>

lemma set_append_if_absent [simp]: "set (append_if_absent x xs) = insert x (set xs)"
  by (auto simp: append_if_absent_def)

lemma distinct_append_if_absent [simp]: "distinct (append_if_absent x xs) = distinct xs"
  by (auto simp: append_if_absent_def)

lemmas custom_rule_defs = rule_whiplash_def rule_physiotherapy_def rule_painkillers_def
  rule_full_recovery_def rule_neck_pain_def rule_back_pain_def rule_head_impact_def

text \<open>What each rule leaves alone.\<close>

lemma custom_rules_frame [simp]:
  "Symptoms (rule_whiplash t c) = Symptoms c" "Treatment (rule_whiplash t c) = Treatment c"
  "Prognosis (rule_whiplash t c) = Prognosis c"
  "Symptoms (rule_physiotherapy t c) = Symptoms c" "Diagnosis (rule_physiotherapy t c) = Diagnosis c"
  "Prognosis (rule_physiotherapy t c) = Prognosis c"
  "Symptoms (rule_painkillers t c) = Symptoms c" "Diagnosis (rule_painkillers t c) = Diagnosis c"
  "Prognosis (rule_painkillers t c) = Prognosis c"
  "Symptoms (rule_full_recovery t c) = Symptoms c" "Diagnosis (rule_full_recovery t c) = Diagnosis c"
  "Treatment (rule_full_recovery t c) = Treatment c"
  "Diagnosis (rule_neck_pain t c) = Diagnosis c" "Treatment (rule_neck_pain t c) = Treatment c"
  "Prognosis (rule_neck_pain t c) = Prognosis c"
  "Diagnosis (rule_back_pain t c) = Diagnosis c" "Treatment (rule_back_pain t c) = Treatment c"
  "Prognosis (rule_back_pain t c) = Prognosis c"
  "Diagnosis (rule_head_impact t c) = Diagnosis c" "Treatment (rule_head_impact t c) = Treatment c"
  "Prognosis (rule_head_impact t c) = Prognosis c"
  by (simp_all add: custom_rule_defs)

text \<open>What each rule adds.\<close>

lemma custom_rules_effect:
  "Diagnosis (rule_whiplash t c) = (if py_in ''whiplash'' t \<and> py_in ''car accident'' t
     then append_if_absent ''Whiplash injury'' (Diagnosis c) else Diagnosis c)"
  "Treatment (rule_physiotherapy t c) = (if py_in ''physiotherapy'' t \<and> py_in ''ten'' t
     then append_if_absent ''10 physiotherapy sessions'' (Treatment c) else Treatment c)"
  "Treatment (rule_painkillers t c) = (if py_in ''painkillers'' t
     then append_if_absent ''Painkillers'' (Treatment c) else Treatment c)"
  "Prognosis (rule_full_recovery t c) = (if py_in ''full recovery'' t \<and> py_in ''six months'' t
     then Prognosis c @ [''Full recovery expected within six months''] else Prognosis c)"
  "Symptoms (rule_neck_pain t c) = (if py_in ''neck'' t \<and> py_in ''pain'' t
     then append_if_absent ''Neck pain'' (Symptoms c) else Symptoms c)"
  "Symptoms (rule_back_pain t c) = (if py_in ''back'' t \<and> py_in ''pain'' t
     then append_if_absent ''Back pain'' (Symptoms c) else Symptoms c)"
  "Symptoms (rule_head_impact t c) = (if py_in ''head'' t \<and> (py_in ''hit'' t \<or> py_in ''impact'' t)
     then append_if_absent ''Head impact'' (Symptoms c) else Symptoms c)"
  by (auto simp: custom_rule_defs)

lemma apply_custom_rules_Symptoms:
  "set (Symptoms (apply_custom_rules t c)) = set (Symptoms c)
     \<union> (if py_in ''neck'' t \<and> py_in ''pain'' t then {''Neck pain''} else {})
     \<union> (if py_in ''back'' t \<and> py_in ''pain'' t then {''Back pain''} else {})
     \<union> (if py_in ''head'' t \<and> (py_in ''hit'' t \<or> py_in ''impact'' t) then {''Head impact''} else {})"
  by (simp add: apply_custom_rules_def custom_rules_effect) blast

lemma apply_custom_rules_Treatment:
  "set (Treatment (apply_custom_rules t c)) = set (Treatment c)
     \<union> (if py_in ''physiotherapy'' t \<and> py_in ''ten'' t then {''10 physiotherapy sessions''} else {})
     \<union> (if py_in ''painkillers'' t then {''Painkillers''} else {})"
  by (simp add: apply_custom_rules_def custom_rules_effect)

lemma apply_custom_rules_Diagnosis:
  "set (Diagnosis (apply_custom_rules t c)) = set (Diagnosis c)
     \<union> (if py_in ''whiplash'' t \<and> py_in ''car accident'' t then {''Whiplash injury''} else {})"
  by (simp add: apply_custom_rules_def custom_rules_effect)

lemma apply_custom_rules_Prognosis:
  "Prognosis (apply_custom_rules t c) = Prognosis c
     @ (if py_in ''full recovery'' t \<and> py_in ''six months'' t
        then [''Full recovery expected within six months''] else [])"
  by (simp add: apply_custom_rules_def custom_rules_effect)

lemma apply_custom_rules_distinct:
  "distinct (Symptoms c) \<Longrightarrow> distinct (Treatment c) \<Longrightarrow> distinct (Diagnosis c) \<Longrightarrow>
   distinct (Symptoms (apply_custom_rules t c)) \<and> distinct (Treatment (apply_custom_rules t c))
   \<and> distinct (Diagnosis (apply_custom_rules t c))"
  by (simp add: apply_custom_rules_def custom_rules_effect)

lemma summarize_transcript_fields:
  "Symptoms (summarize_transcript self tr) = Symptoms (apply_custom_rules (py_lower tr) (categorize_entities self (ner self tr)))"
  "Treatment (summarize_transcript self tr) = Treatment (apply_custom_rules (py_lower tr) (categorize_entities self (ner self tr)))"
  "Diagnosis (summarize_transcript self tr) = Diagnosis (apply_custom_rules (py_lower tr) (categorize_entities self (ner self tr)))"
  "Prognosis (summarize_transcript self tr) = Prognosis (apply_custom_rules (py_lower tr) (categorize_entities self (ner self tr)))"
  "Patient_Name (summarize_transcript self tr) = extract_patient_name tr"
  "Current_Status (summarize_transcript self tr) =
     (if py_in ''occasional'' (py_lower tr) \<and> py_in ''back'' (py_lower tr) then ''Occasional backache''
      else extract_current_status self tr)"
  "Keywords (summarize_transcript self tr) = take 5 (extract_keywords self tr 10)"
  by (simp_all add: summarize_transcript_def Let_def)

lemma category_list_fields:
  "Symptoms c = category_list ''SYMPTOMS'' c" "Treatment c = category_list ''TREATMENT'' c"
  "Diagnosis c = category_list ''DIAGNOSIS'' c" "Prognosis c = category_list ''PROGNOSIS'' c"
  by (simp_all add: category_list_def)

lemma category_names_mem:
  "''SYMPTOMS'' \<in> set category_names" "''TREATMENT'' \<in> set category_names"
  "''DIAGNOSIS'' \<in> set category_names" "''PROGNOSIS'' \<in> set category_names"
  by (simp_all add: category_names_def)

lemmas init_pipeline_lists =
  category_list_init_pipeline [OF category_names_mem(1)] category_list_init_pipeline [OF category_names_mem(2)]
  category_list_init_pipeline [OF category_names_mem(3)] category_list_init_pipeline [OF category_names_mem(4)]

lemma init_pipeline_ner [simp]: "ner (init_pipeline nm ss kb) = nm"
  by (simp add: init_pipeline_def)

lemma first_status_sentence_find:
  "first_status_sentence ss = find (\<lambda>s. any_in status_phrases (py_lower s)) ss"
  by (induction ss) auto

lemma py_lower_fixed_sub: "py_in s (py_lower t) \<Longrightarrow> py_lower s = s"
proof -
  assume "py_in s (py_lower t)"
  then obtain a b where ab: "py_lower t = a @ s @ b" by (auto simp: py_in_iff_split)
  then have "py_lower a @ py_lower s @ py_lower b = a @ s @ b"
    by (metis py_lower_idem py_lower_simps(3))
  then show ?thesis by (simp add: append_eq_append_conv)
qed

definition model_free_pipeline :: "nat medical_nlp_pipeline" where
  "model_free_pipeline = init_pipeline (\<lambda>_. []) (\<lambda>_. []) (\<lambda>_ _. [])"

lemmas summary_eval = summarize_transcript_def Let_def extract_patient_name_def name_patterns_def
  match_mr_ms_def match_miss_def match_spaced_name_def is_ascii_upper_def is_ascii_lower_def
  categorize_entities_def init_pipeline_def init_categories_def empty_categorized_def
  add_to_category_def any_in_def extract_current_status_def extract_keywords_def
  apply_custom_rules_def custom_rule_defs append_if_absent_def model_free_pipeline_def scan_simps

lemma categorize_init_fields:
  "Symptoms (categorize_entities (init_pipeline nm ss kb) es) =
     filter (\<lambda>w. any_in (category_keywords ''SYMPTOMS'') (py_lower w)) (map word es)"
  "Treatment (categorize_entities (init_pipeline nm ss kb) es) =
     filter (\<lambda>w. any_in (category_keywords ''TREATMENT'') (py_lower w)) (map word es)"
  "Diagnosis (categorize_entities (init_pipeline nm ss kb) es) =
     filter (\<lambda>w. any_in (category_keywords ''DIAGNOSIS'') (py_lower w)) (map word es)"
  "Prognosis (categorize_entities (init_pipeline nm ss kb) es) =
     filter (\<lambda>w. any_in (category_keywords ''PROGNOSIS'') (py_lower w)) (map word es)"
  using init_pipeline_lists [of nm ss kb es] by (simp_all add: category_list_def)

section \<open>Claims: the summary pipeline\<close>

text \<open>C2: with the constructor's categories, each
  category list is the entity words, in NER order, whose lowercase form contains one
  of that category's keywords; an entity may appear in several lists.\<close>

theorem categorize_entities_spec:
  "categorize_entities (init_pipeline nm ss kb) es =
     \<lparr>Symptoms = filter (\<lambda>w. any_in (category_keywords ''SYMPTOMS'') (py_lower w)) (map word es),
      Treatment = filter (\<lambda>w. any_in (category_keywords ''TREATMENT'') (py_lower w)) (map word es),
      Diagnosis = filter (\<lambda>w. any_in (category_keywords ''DIAGNOSIS'') (py_lower w)) (map word es),
      Prognosis = filter (\<lambda>w. any_in (category_keywords ''PROGNOSIS'') (py_lower w)) (map word es)\<rparr>"
  by (intro categorized.equality) (simp_all add: categorize_init_fields)

text \<open>C3: the summary's Symptoms, Treatment and
  Diagnosis hold exactly the categorised NER words plus the fixed strings whose
  trigger substrings occur in the lowercased transcript; Prognosis is the categorised
  words followed by the recovery sentence when "full recovery" and "six months" occur.\<close>

theorem summarize_transcript_lists:
  "set (Symptoms (summarize_transcript (init_pipeline nm ss kb) tr)) =
     {w \<in> set (map word (nm tr)). any_in (category_keywords ''SYMPTOMS'') (py_lower w)}
     \<union> (if py_in ''neck'' (py_lower tr) \<and> py_in ''pain'' (py_lower tr) then {''Neck pain''} else {})
     \<union> (if py_in ''back'' (py_lower tr) \<and> py_in ''pain'' (py_lower tr) then {''Back pain''} else {})
     \<union> (if py_in ''head'' (py_lower tr) \<and> (py_in ''hit'' (py_lower tr) \<or> py_in ''impact'' (py_lower tr))
        then {''Head impact''} else {})
   \<and> set (Treatment (summarize_transcript (init_pipeline nm ss kb) tr)) =
     {w \<in> set (map word (nm tr)). any_in (category_keywords ''TREATMENT'') (py_lower w)}
     \<union> (if py_in ''physiotherapy'' (py_lower tr) \<and> py_in ''ten'' (py_lower tr)
        then {''10 physiotherapy sessions''} else {})
     \<union> (if py_in ''painkillers'' (py_lower tr) then {''Painkillers''} else {})
   \<and> set (Diagnosis (summarize_transcript (init_pipeline nm ss kb) tr)) =
     {w \<in> set (map word (nm tr)). any_in (category_keywords ''DIAGNOSIS'') (py_lower w)}
     \<union> (if py_in ''whiplash'' (py_lower tr) \<and> py_in ''car accident'' (py_lower tr)
        then {''Whiplash injury''} else {})
   \<and> Prognosis (summarize_transcript (init_pipeline nm ss kb) tr) =
     filter (\<lambda>w. any_in (category_keywords ''PROGNOSIS'') (py_lower w)) (map word (nm tr))
     @ (if py_in ''full recovery'' (py_lower tr) \<and> py_in ''six months'' (py_lower tr)
        then [''Full recovery expected within six months''] else [])"
  by (simp add: summarize_transcript_fields apply_custom_rules_Symptoms apply_custom_rules_Treatment
      apply_custom_rules_Diagnosis apply_custom_rules_Prognosis categorize_init_fields del: set_map)

text \<open>C15: the guarded appends keep the Symptoms,
  Treatment and Diagnosis lists free of repetitions whenever the NER words are.\<close>

theorem summarize_transcript_distinct:
  assumes "distinct (map word (nm tr))"
  shows "distinct (Symptoms (summarize_transcript (init_pipeline nm ss kb) tr))
    \<and> distinct (Treatment (summarize_transcript (init_pipeline nm ss kb) tr))
    \<and> distinct (Diagnosis (summarize_transcript (init_pipeline nm ss kb) tr))"
  using apply_custom_rules_distinct assms
  by (simp add: summarize_transcript_fields categorize_init_fields)

theorem summarize_transcript_distinct_witness:
  "distinct (Symptoms (summarize_transcript model_free_pipeline ''my neck and back pain''))
   \<and> Symptoms (summarize_transcript model_free_pipeline ''my neck and back pain'') = [''Neck pain'', ''Back pain'']"
proof -
  have "distinct (map word ((\<lambda>_. []) ''my neck and back pain''))" by simp
  from summarize_transcript_distinct [OF this, of "\<lambda>_. []" "\<lambda>_ _. [] :: (string \<times> nat) list"]
  have "distinct (Symptoms (summarize_transcript model_free_pipeline ''my neck and back pain''))"
    by (simp add: model_free_pipeline_def)
  moreover have "Symptoms (summarize_transcript model_free_pipeline ''my neck and back pain'') = [''Neck pain'', ''Back pain'']"
    by (simp add: summary_eval)
  ultimately show ?thesis by simp
qed

text \<open>C23: because the sentences come from
  \<open>nlp(text.lower())\<close>, a found status is returned in lowercase, whatever the
  transcript's case (for a segmenter whose sentences are pieces of its input).\<close>

theorem extract_current_status_lowercase:
  assumes "\<forall>s \<in> set (nlp_sents self (py_lower tr)). py_in s (py_lower tr)"
  shows "extract_current_status self tr = ''Status not explicitly mentioned''
    \<or> py_lower (extract_current_status self tr) = extract_current_status self tr"
proof (cases "find (\<lambda>s. any_in status_phrases (py_lower s)) (nlp_sents self (py_lower tr))")
  case (Some s)
  then have "s \<in> set (nlp_sents self (py_lower tr))" by (auto simp: find_Some_iff)
  with assms have "py_lower s = s" by (blast intro: py_lower_fixed_sub)
  with Some show ?thesis by (simp add: extract_current_status_def first_status_sentence_find)
qed (simp add: extract_current_status_def first_status_sentence_find)

theorem extract_current_status_lowercase_witness:
  "extract_current_status (init_pipeline (\<lambda>_. []) (\<lambda>t. [t]) (\<lambda>_ _. [] :: (string \<times> nat) list))
     ''I am Currently Fine'' = ''i am currently fine''"
proof -
  let ?p = "init_pipeline (\<lambda>_. []) (\<lambda>t. [t]) (\<lambda>_ _. [] :: (string \<times> nat) list)"
  have "\<forall>s \<in> set (nlp_sents ?p (py_lower ''I am Currently Fine'')). py_in s (py_lower ''I am Currently Fine'')"
    by (simp add: init_pipeline_def)
  from extract_current_status_lowercase [OF this]
  show ?thesis by (simp add: summary_eval status_phrases_def)
qed

end
