(* ===== verification/SOAPNote.thy ===== *)
theory SOAPNote
  imports PyStr
begin

text \<open>
  Model of \<open>src/soap-note-generator.py\<close>, class \<open>SOAPNoteGenerator\<close>. The object
  is the record \<open>soap_note_generator\<close>: spaCy's sentence segmentation (a function
  supplied by the environment) and the \<open>section_markers\<close> table; the T5 tokenizer
  and model are loaded but never called, so they are not part of the model.
  \<open>categorize_text\<close> fills a dictionary of sections, where an unknown section
  name would raise \<open>KeyError\<close>; \<open>generate_soap_note_rule_based\<close> computes it
  (so its exceptions propagate) but never reads it. The SOAP note is a nest of
  records; its JSON keys \<open>Diagnosis\<close>, \<open>Treatment\<close> and \<open>Follow-Up\<close> are the
  fields \<open>Assessment_Diagnosis\<close>, \<open>Plan_Treatment\<close> and \<open>Follow_Up\<close> here,
  so as not to clash with the summary record of \<open>MedicalNLP\<close>.
\<close>

section \<open>State\<close>

record soap_note_generator =
  nlp_sentences :: "string \<Rightarrow> string list"
  section_markers :: "(string, string list) pydict"

definition init_section_markers :: "(string, string list) pydict" where
  "init_section_markers =
     [(''subjective'', [''feel'', ''felt'', ''experiencing'', ''reported'', ''says'', ''mentioned'', ''complains'', ''described'']),
      (''objective'', [''examination'', ''exam'', ''observed'', ''measured'', ''tested'', ''vitals'', ''assessment'', ''found'']),
      (''assessment'', [''diagnosis'', ''impression'', ''assessment'', ''condition'', ''determined'', ''concluded'', ''evaluated'']),
      (''plan'', [''plan'', ''recommend'', ''advised'', ''prescribed'', ''follow-up'', ''referral'', ''suggested'', ''treatment''])]"

definition init_soap_generator :: "(string \<Rightarrow> string list) \<Rightarrow> soap_note_generator" where
  "init_soap_generator nlp = \<lparr>nlp_sentences = nlp, section_markers = init_section_markers\<rparr>"

section \<open>Splitting the dialogue\<close>

definition physician_label :: string where
  "physician_label = ''Physician:''"

definition patient_label :: string where
  "patient_label = ''Patient:''"

definition line_break :: char where
  "line_break = CHR 0x0A"

record dialogue_parts =
  physician :: string
  patient :: string

text \<open>The loop over the lines: strip, then \<open>if\<close> Physician \<open>elif\<close> Patient.\<close>

fun dialogue_loop :: "string list \<Rightarrow> string list \<Rightarrow> string list \<Rightarrow> string list \<times> string list" where
  "dialogue_loop [] ph pa = (ph, pa)"
| "dialogue_loop (raw # lines) ph pa =
     (let line = py_strip raw in
      if py_startswith physician_label line
      then dialogue_loop lines (ph @ [py_strip (py_replace physician_label [] line)]) pa
      else if py_startswith patient_label line
      then dialogue_loop lines ph (pa @ [py_strip (py_replace patient_label [] line)])
      else dialogue_loop lines ph pa)"

definition extract_dialogue_parts :: "string \<Rightarrow> dialogue_parts" where
  "extract_dialogue_parts transcript =
     (case dialogue_loop (py_split line_break transcript) [] [] of
        (ph, pa) \<Rightarrow> \<lparr>physician = py_join '' '' ph, patient = py_join '' '' pa\<rparr>)"

section \<open>Categorising sentences into sections\<close>

definition init_sections :: "(string, string list) pydict" where
  "init_sections = [(''subjective'', []), (''objective'', []), (''assessment'', []), (''plan'', [])]"

text \<open>\<open>categorized[section].append(s)\<close>: KeyError when the section is not a key.\<close>

definition dict_append :: "string \<Rightarrow> string \<Rightarrow> (string, string list) pydict \<Rightarrow> (string, string list) pydict py_result" where
  "dict_append k x d =
     (case map_of d k of None \<Rightarrow> Inl (KeyError k) | Some xs \<Rightarrow> Inr (AList.update k (xs @ [x]) d))"

text \<open>The inner loop with its \<open>break\<close>: the first section one of whose markers occurs.\<close>

fun first_section :: "(string, string list) pydict \<Rightarrow> string \<Rightarrow> string option" where
  "first_section [] s = None"
| "first_section ((sec, kws) # rest) s =
     (if any_in kws (py_lower s) then Some sec else first_section rest s)"

fun categorize_sentences ::
  "(string, string list) pydict \<Rightarrow> string list \<Rightarrow> (string, string list) pydict \<Rightarrow> (string, string list) pydict py_result" where
  "categorize_sentences ms [] d = Inr d"
| "categorize_sentences ms (s # ss) d =
     (case first_section ms s of
        None \<Rightarrow> categorize_sentences ms ss d
      | Some sec \<Rightarrow> py_bind (dict_append sec s d) (categorize_sentences ms ss))"

definition categorize_text :: "soap_note_generator \<Rightarrow> string \<Rightarrow> (string, string list) pydict py_result" where
  "categorize_text self text =
     categorize_sentences (section_markers self) (nlp_sentences self (py_lower text)) init_sections"

section \<open>The SOAP note\<close>

record subjective_part =
  Chief_Complaint :: string
  History_of_Present_Illness :: string

record objective_part =
  Physical_Exam :: string
  Observations :: string

record assessment_part =
  Assessment_Diagnosis :: string
  Severity :: string

record plan_part =
  Plan_Treatment :: string
  Follow_Up :: string

record soap_note =
  Subjective :: subjective_part
  Objective :: objective_part
  Assessment :: assessment_part
  Plan :: plan_part

definition empty_soap_note :: soap_note where
  "empty_soap_note =
     \<lparr>Subjective = \<lparr>Chief_Complaint = [], History_of_Present_Illness = []\<rparr>,
      Objective = \<lparr>Physical_Exam = [], Observations = []\<rparr>,
      Assessment = \<lparr>Assessment_Diagnosis = [], Severity = []\<rparr>,
      Plan = \<lparr>Plan_Treatment = [], Follow_Up = []\<rparr>\<rparr>"

text \<open>The eight conditional assignments, one definition per \<open>if\<close> block, on the
  lowercased patient part \<open>p\<close>, physician part \<open>d\<close> and transcript \<open>t\<close>,
  applied in the source's order.\<close>

definition soap_chief_complaint :: "string \<Rightarrow> soap_note \<Rightarrow> soap_note" where
  "soap_chief_complaint p n =
     (if py_in ''neck'' p \<and> py_in ''pain'' p
      then n\<lparr>Subjective := (Subjective n)\<lparr>Chief_Complaint := ''Neck and back pain''\<rparr>\<rparr> else n)"

definition soap_history :: "string \<Rightarrow> soap_note \<Rightarrow> soap_note" where
  "soap_history p n =
     (if py_in ''car accident'' p
      then n\<lparr>Subjective := (Subjective n)\<lparr>History_of_Present_Illness :=
        ''Patient had a car accident, experienced pain for four weeks, now occasional back pain.''\<rparr>\<rparr>
      else n)"

definition soap_physical_exam :: "string \<Rightarrow> soap_note \<Rightarrow> soap_note" where
  "soap_physical_exam d n =
     (if py_in ''full range'' d \<and> py_in ''movement'' d
      then n\<lparr>Objective := (Objective n)\<lparr>Physical_Exam :=
        ''Full range of motion in cervical and lumbar spine, no tenderness.''\<rparr>\<rparr> else n)"

definition soap_observations :: "string \<Rightarrow> soap_note \<Rightarrow> soap_note" where
  "soap_observations d n =
     (if py_in ''good condition'' d \<or> py_in ''good'' d
      then n\<lparr>Objective := (Objective n)\<lparr>Observations :=
        ''Patient appears in normal health, normal gait.''\<rparr>\<rparr> else n)"

definition soap_diagnosis :: "string \<Rightarrow> soap_note \<Rightarrow> soap_note" where
  "soap_diagnosis t n =
     (if py_in ''whiplash'' t
      then n\<lparr>Assessment := (Assessment n)\<lparr>Assessment_Diagnosis :=
        ''Whiplash injury and lower back strain''\<rparr>\<rparr> else n)"

definition soap_severity :: "string \<Rightarrow> soap_note \<Rightarrow> soap_note" where
  "soap_severity p n =
     (if py_in ''better'' p \<or> py_in ''occasional'' p
      then n\<lparr>Assessment := (Assessment n)\<lparr>Severity := ''Mild, improving''\<rparr>\<rparr> else n)"

definition soap_treatment :: "string \<Rightarrow> soap_note \<Rightarrow> soap_note" where
  "soap_treatment p n =
     (if py_in ''physiotherapy'' p
      then n\<lparr>Plan := (Plan n)\<lparr>Plan_Treatment :=
        ''Continue physiotherapy as needed, use analgesics for pain relief.''\<rparr>\<rparr> else n)"

definition soap_follow_up :: "string \<Rightarrow> soap_note \<Rightarrow> soap_note" where
  "soap_follow_up d n =
     (if py_in ''come back'' d \<or> py_in ''follow-up'' d
      then n\<lparr>Plan := (Plan n)\<lparr>Follow_Up :=
        ''Patient to return if pain worsens or persists beyond six months.''\<rparr>\<rparr> else n)"

definition fill_soap_note :: "string \<Rightarrow> string \<Rightarrow> string \<Rightarrow> soap_note \<Rightarrow> soap_note" where
  "fill_soap_note p d t n =
     soap_follow_up d (soap_treatment p (soap_severity p (soap_diagnosis t
       (soap_observations d (soap_physical_exam d (soap_history p (soap_chief_complaint p n)))))))"

definition generate_soap_note_rule_based :: "soap_note_generator \<Rightarrow> string \<Rightarrow> soap_note py_result" where
  "generate_soap_note_rule_based self transcript =
     (let parts = extract_dialogue_parts transcript in
      py_bind (categorize_text self transcript) (\<lambda>categorized.
        Inr (fill_soap_note (py_lower (patient parts)) (py_lower (physician parts)) (py_lower transcript)
               empty_soap_note)))"

definition generate_soap_note_t5 :: "soap_note_generator \<Rightarrow> string \<Rightarrow> soap_note py_result" where
  "generate_soap_note_t5 self transcript =
     (case generate_soap_note_rule_based self transcript of
        Inl e \<Rightarrow> generate_soap_note_rule_based self transcript
      | Inr note \<Rightarrow> Inr note)"

text \<open>The second sample of the \<open>__main__\<close> block, with its four-space indentation.\<close>

definition soap_sample_input :: string where
  "soap_sample_input =
     [line_break] @ ''    Doctor: How are you feeling today?'' @ [line_break]
     @ ''    Patient: I had a car accident. My neck and back hurt a lot for four weeks.'' @ [line_break]
     @ ''    Doctor: Did you receive treatment?'' @ [line_break]
     @ ''    Patient: Yes, I had ten physiotherapy sessions, and now I only have occasional back pain.''
     @ [line_break] @ ''    ''"

section \<open>Lemmas: the dialogue loop and the section dictionary\<close>

lemma dialogue_loop_eq:
  "dialogue_loop lines ph pa =
     (ph @ map (\<lambda>l. py_strip (py_replace physician_label [] l))
             (filter (py_startswith physician_label) (map py_strip lines)),
      pa @ map (\<lambda>l. py_strip (py_replace patient_label [] l))
             (filter (\<lambda>l. \<not> py_startswith physician_label l \<and> py_startswith patient_label l)
               (map py_strip lines)))"
  by (induction lines arbitrary: ph pa) (simp_all add: Let_def)

definition section_names :: "string list" where
  "section_names = [''subjective'', ''objective'', ''assessment'', ''plan'']"

lemma dict_append_map_pair:
  "k \<in> set cs \<Longrightarrow> distinct cs \<Longrightarrow>
   dict_append k x (map (\<lambda>c. (c, f c)) cs) = Inr (map (\<lambda>c. (c, (f(k := f k @ [x])) c)) cs)"
  by (simp add: dict_append_def update_map_pair)

lemma first_section_in_keys: "first_section ms s = Some sec \<Longrightarrow> sec \<in> fst ` set ms"
  by (induction ms) (auto split: if_splits)

text \<open>Loop invariant: one list per section, in section order; each sentence is
  appended to the list of the first section it matches.\<close>

lemma categorize_sentences_map_pair:
  "fst ` set ms \<subseteq> set cs \<Longrightarrow> distinct cs \<Longrightarrow>
   categorize_sentences ms ss (map (\<lambda>c. (c, f c)) cs) =
     Inr (map (\<lambda>c. (c, f c @ filter (\<lambda>s. first_section ms s = Some c) ss)) cs)"
proof (induction ss arbitrary: f)
  case Nil
  then show ?case by simp
next
  case (Cons s ss)
  show ?case
  proof (cases "first_section ms s")
    case None
    with Cons show ?thesis by simp
  next
    case (Some sec)
    with Cons.prems have "sec \<in> set cs" by (auto dest: first_section_in_keys)
    with Some Cons show ?thesis
      by (simp add: dict_append_map_pair fun_upd_def cong: if_cong)
  qed
qed

lemma init_sections_map_pair: "init_sections = map (\<lambda>c. (c, [])) section_names"
  by (simp add: init_sections_def section_names_def)

lemma init_markers_keys: "fst ` set init_section_markers \<subseteq> set section_names"
  by (auto simp: init_section_markers_def section_names_def)

lemma categorize_text_init:
  "categorize_text (init_soap_generator nlp) text =
     Inr (map (\<lambda>c. (c, filter (\<lambda>s. first_section init_section_markers s = Some c) (nlp (py_lower text))))
       section_names)"
  using categorize_sentences_map_pair [OF init_markers_keys, where f = "\<lambda>_. []"]
  by (simp add: categorize_text_def init_soap_generator_def init_sections_map_pair section_names_def)

lemma generate_soap_note_rule_based_init:
  "generate_soap_note_rule_based (init_soap_generator nlp) tr =
     Inr (fill_soap_note (py_lower (patient (extract_dialogue_parts tr)))
            (py_lower (physician (extract_dialogue_parts tr))) (py_lower tr) empty_soap_note)"
  by (simp add: generate_soap_note_rule_based_def categorize_text_init Let_def)

lemmas soap_rule_defs = soap_chief_complaint_def soap_history_def soap_physical_exam_def
  soap_observations_def soap_diagnosis_def soap_severity_def soap_treatment_def soap_follow_up_def

text \<open>Each rule writes one part of the note and leaves the other three alone.\<close>

lemma soap_rules_frame [simp]:
  "Objective (soap_chief_complaint p n) = Objective n" "Assessment (soap_chief_complaint p n) = Assessment n"
  "Plan (soap_chief_complaint p n) = Plan n"
  "Objective (soap_history p n) = Objective n" "Assessment (soap_history p n) = Assessment n"
  "Plan (soap_history p n) = Plan n"
  "Subjective (soap_physical_exam d n) = Subjective n" "Assessment (soap_physical_exam d n) = Assessment n"
  "Plan (soap_physical_exam d n) = Plan n"
  "Subjective (soap_observations d n) = Subjective n" "Assessment (soap_observations d n) = Assessment n"
  "Plan (soap_observations d n) = Plan n"
  "Subjective (soap_diagnosis t n) = Subjective n" "Objective (soap_diagnosis t n) = Objective n"
  "Plan (soap_diagnosis t n) = Plan n"
  "Subjective (soap_severity p n) = Subjective n" "Objective (soap_severity p n) = Objective n"
  "Plan (soap_severity p n) = Plan n"
  "Subjective (soap_treatment p n) = Subjective n" "Objective (soap_treatment p n) = Objective n"
  "Assessment (soap_treatment p n) = Assessment n"
  "Subjective (soap_follow_up d n) = Subjective n" "Objective (soap_follow_up d n) = Objective n"
  "Assessment (soap_follow_up d n) = Assessment n"
  by (simp_all add: soap_rule_defs)

lemma soap_observations_field:
  "Observations (Objective (soap_observations d n)) =
     (if py_in ''good condition'' d \<or> py_in ''good'' d
      then ''Patient appears in normal health, normal gait.'' else Observations (Objective n))"
  "Physical_Exam (Objective (soap_observations d n)) = Physical_Exam (Objective n)"
  by (simp_all add: soap_observations_def)

lemma soap_physical_exam_observations:
  "Observations (Objective (soap_physical_exam d n)) = Observations (Objective n)"
  by (simp add: soap_physical_exam_def)

lemmas soap_eval = generate_soap_note_t5_def generate_soap_note_rule_based_init fill_soap_note_def
  soap_rule_defs empty_soap_note_def extract_dialogue_parts_def dialogue_loop_eq physician_label_def patient_label_def
  line_break_def py_replace_def py_strip_def py_lstrip_def py_rstrip_def soap_sample_input_def scan_simps

lemma soap_sample_note:
  "generate_soap_note_t5 (init_soap_generator nlp) soap_sample_input =
     Inr \<lparr>Subjective = \<lparr>Chief_Complaint = ''Neck and back pain'',
            History_of_Present_Illness =
              ''Patient had a car accident, experienced pain for four weeks, now occasional back pain.''\<rparr>,
          Objective = \<lparr>Physical_Exam = [], Observations = []\<rparr>,
          Assessment = \<lparr>Assessment_Diagnosis = [], Severity = ''Mild, improving''\<rparr>,
          Plan = \<lparr>Plan_Treatment = ''Continue physiotherapy as needed, use analgesics for pain relief.'',
                  Follow_Up = []\<rparr>\<rparr>"
  by (simp add: soap_eval Let_def)

section \<open>Claims: the SOAP note\<close>

text \<open>C4: with the constructor's section markers the
  generator never raises, whatever the sentence segmenter returns, and the note is the
  eight rules applied to the lowercased patient part, physician part and transcript:
  the section categorisation it computes is discarded.\<close>

theorem generate_soap_note_total:
  "generate_soap_note_t5 (init_soap_generator nlp) tr =
     Inr (fill_soap_note (py_lower (patient (extract_dialogue_parts tr)))
            (py_lower (physician (extract_dialogue_parts tr))) (py_lower tr) empty_soap_note)"
  by (simp add: generate_soap_note_t5_def generate_soap_note_rule_based_init)

text \<open>C10: with the constructor's markers, categorize_text
  never raises; each section's list holds, in order, the sentences of the lowercased
  text whose first matching section (in marker order) is that one, so a sentence lands
  in at most one section.\<close>

theorem categorize_text_spec:
  "categorize_text (init_soap_generator nlp) text =
     Inr [(''subjective'', filter (\<lambda>s. first_section init_section_markers s = Some ''subjective'') (nlp (py_lower text))),
          (''objective'', filter (\<lambda>s. first_section init_section_markers s = Some ''objective'') (nlp (py_lower text))),
          (''assessment'', filter (\<lambda>s. first_section init_section_markers s = Some ''assessment'') (nlp (py_lower text))),
          (''plan'', filter (\<lambda>s. first_section init_section_markers s = Some ''plan'') (nlp (py_lower text)))]"
  by (simp add: categorize_text_init section_names_def)

text \<open>C21: "assessment" is also an objective marker
  and the objective section is tried first, so removing it from the assessment markers
  changes no categorisation: the assessment section can never be chosen because of it.\<close>

theorem assessment_marker_unreachable:
  "first_section init_section_markers s =
   first_section
     [(''subjective'', [''feel'', ''felt'', ''experiencing'', ''reported'', ''says'', ''mentioned'', ''complains'', ''described'']),
      (''objective'', [''examination'', ''exam'', ''observed'', ''measured'', ''tested'', ''vitals'', ''assessment'', ''found'']),
      (''assessment'', [''diagnosis'', ''impression'', ''condition'', ''determined'', ''concluded'', ''evaluated'']),
      (''plan'', [''plan'', ''recommend'', ''advised'', ''prescribed'', ''follow-up'', ''referral'', ''suggested'', ''treatment''])]
     s"
  by (auto simp: init_section_markers_def any_in_def)

text \<open>C22: the Observations rule tests "good
  condition" or "good"; the first is contained in the second, so the rule fires
  exactly when "good" occurs in the physician's lowercased lines.\<close>

theorem observations_good_substring:
  "Observations (Objective (fill_soap_note p d t empty_soap_note)) =
     (if py_in ''good'' d then ''Patient appears in normal health, normal gait.'' else [])"
proof -
  have "py_in ''good condition'' d \<Longrightarrow> py_in ''good'' d"
    by (rule py_in_trans [of _ "''good condition''"]) (simp_all add: scan_simps)
  then show ?thesis
    by (auto simp: fill_soap_note_def soap_observations_field soap_physical_exam_observations
        empty_soap_note_def)
qed

end
