(* ===== verification/Json.thy ===== *)
theory Json
  imports PyStr
begin

text \<open>
  Python's \<open>json.dumps(obj, indent=2)\<close>, which the three scripts call on their
  results, and a reference decoder in the role of \<open>json.loads\<close>. With an
  \<open>indent\<close>, CPython serialises through the pure-Python \<open>_make_iterencode\<close>
  (item separator \<open>','\<close>, key separator \<open>': '\<close>, each level indented by two
  more spaces, \<open>[]\<close> and \<open>{}\<close> for empty containers) and encodes strings with
  \<open>encode_basestring_ascii\<close> (the default \<open>ensure_ascii=True\<close>): printable
  ASCII other than \<open>"\<close> and \<open>\\\<close> is kept, the five control characters with
  a short escape get it, and every other character becomes \<open>\\u00XX\<close> in
  lowercase hexadecimal. Values are the JSON the scripts produce: \<open>None\<close>,
  strings, lists and dictionaries with string keys, in insertion order.
\<close>

datatype json = JNull | JString string | JArray "json list" | JObject "(string \<times> json) list"

section \<open>\<open>encode_basestring_ascii\<close>\<close>

definition hex_digit :: "nat \<Rightarrow> char" where
  "hex_digit d = ''0123456789abcdef'' ! d"

definition json_escape_char :: "char \<Rightarrow> string" where
  "json_escape_char c =
     (let n = of_char c :: nat in
      if 32 \<le> n \<and> n \<le> 126 \<and> c \<noteq> CHR 0x5C \<and> c \<noteq> CHR 0x22 then [c]
      else if c = CHR 0x5C then [CHR 0x5C, CHR 0x5C]
      else if c = CHR 0x22 then [CHR 0x5C, CHR 0x22]
      else if c = CHR 0x08 then [CHR 0x5C, CHR ''b'']
      else if c = CHR 0x0C then [CHR 0x5C, CHR ''f'']
      else if c = CHR 0x0A then [CHR 0x5C, CHR ''n'']
      else if c = CHR 0x0D then [CHR 0x5C, CHR ''r'']
      else if c = CHR 0x09 then [CHR 0x5C, CHR ''t'']
      else [CHR 0x5C, CHR ''u'', CHR ''0'', CHR ''0'', hex_digit (n div 16), hex_digit (n mod 16)])"

definition json_encode_string :: "string \<Rightarrow> string" where
  "json_encode_string s = CHR 0x22 # concat (map json_escape_char s) @ [CHR 0x22]"

section \<open>\<open>_make_iterencode\<close> with \<open>indent=2\<close>\<close>

text \<open>The line break and indentation that open an item at nesting level \<open>k\<close>.\<close>

definition json_newline :: "nat \<Rightarrow> string" where
  "json_newline k = CHR 0x0A # replicate (2 * k) (CHR '' '')"

fun json_dumps_at :: "nat \<Rightarrow> json \<Rightarrow> string" where
  "json_dumps_at k JNull = ''null''"
| "json_dumps_at k (JString s) = json_encode_string s"
| "json_dumps_at k (JArray xs) =
     (if xs = [] then ''[]''
      else ''['' @ json_newline (Suc k)
        @ py_join ('','' @ json_newline (Suc k)) (map (json_dumps_at (Suc k)) xs)
        @ json_newline k @ '']'')"
| "json_dumps_at k (JObject kvs) =
     (if kvs = [] then ''{}''
      else ''{'' @ json_newline (Suc k)
        @ py_join ('','' @ json_newline (Suc k))
            (map (\<lambda>(key, v). json_encode_string key @ '': '' @ json_dumps_at (Suc k) v) kvs)
        @ json_newline k @ ''}'')"

definition json_dumps :: "json \<Rightarrow> string" where
  "json_dumps v = json_dumps_at 0 v"

text \<open>The characters \<open>json.dumps\<close> with \<open>indent\<close> can emit: printable ASCII and the line break.\<close>

definition json_text_char :: "char \<Rightarrow> bool" where
  "json_text_char c = (c = CHR 0x0A \<or> (32 \<le> (of_char c :: nat) \<and> (of_char c :: nat) \<le> 126))"

section \<open>Shapes of JSON documents\<close>

text \<open>
  The shape a consumer of the printed text expects: \<open>null\<close>, a string, a list whose
  items all have one shape, or an object with exactly the given keys, in order.
\<close>

datatype json_type = TNull | TStr | TList json_type | TObject "(string \<times> json_type) list"

fun json_has_type :: "json_type \<Rightarrow> json \<Rightarrow> bool" where
  "json_has_type TNull v = (v = JNull)"
| "json_has_type TStr v = (case v of JString _ \<Rightarrow> True | _ \<Rightarrow> False)"
| "json_has_type (TList t) v = (case v of JArray xs \<Rightarrow> list_all (json_has_type t) xs | _ \<Rightarrow> False)"
| "json_has_type (TObject fs) v =
     (case v of
        JObject kvs \<Rightarrow> map fst kvs = map fst fs \<and> list_all2 (\<lambda>(_, t) (_, x). json_has_type t x) fs kvs
      | _ \<Rightarrow> False)"

section \<open>Reference decoder\<close>

text \<open>
  A decoder for the JSON subset above, accepting any JSON whitespace between
  tokens as \<open>json.loads\<close> does. It is not code of the repository: it states what
  the printed text means. Nesting is bounded by a fuel argument; \<open>json_loads\<close>
  gives it the length of its input, which the roundtrip theorem shows is enough.
\<close>

definition json_ws :: "char \<Rightarrow> bool" where
  "json_ws c = (c = CHR '' '' \<or> c = CHR 0x09 \<or> c = CHR 0x0A \<or> c = CHR 0x0D)"

definition skip_ws :: "string \<Rightarrow> string" where
  "skip_ws s = dropWhile json_ws s"

definition hex_val :: "char \<Rightarrow> nat option" where
  "hex_val c =
     (let n = of_char c :: nat in
      if 48 \<le> n \<and> n \<le> 57 then Some (n - 48)
      else if 97 \<le> n \<and> n \<le> 102 then Some (n - 87)
      else if 65 \<le> n \<and> n \<le> 70 then Some (n - 55)
      else None)"

text \<open>Four hexadecimal digits; code points above U+00FF are outside the model's strings.\<close>

definition hex4 :: "char \<Rightarrow> char \<Rightarrow> char \<Rightarrow> char \<Rightarrow> char option" where
  "hex4 a b c d =
     (case (hex_val a, hex_val b, hex_val c, hex_val d) of
        (Some w, Some x, Some y, Some z) \<Rightarrow>
          (let n = ((w * 16 + x) * 16 + y) * 16 + z in if n < 256 then Some (char_of n) else None)
      | _ \<Rightarrow> None)"

definition unescape_char :: "char \<Rightarrow> char option" where
  "unescape_char e =
     (if e = CHR 0x22 then Some (CHR 0x22) else if e = CHR 0x5C then Some (CHR 0x5C)
      else if e = CHR ''/'' then Some (CHR ''/'') else if e = CHR ''b'' then Some (CHR 0x08)
      else if e = CHR ''f'' then Some (CHR 0x0C) else if e = CHR ''n'' then Some (CHR 0x0A)
      else if e = CHR ''r'' then Some (CHR 0x0D) else if e = CHR ''t'' then Some (CHR 0x09)
      else None)"

text \<open>The body of a string literal, after its opening quote.\<close>

fun parse_string :: "string \<Rightarrow> (string \<times> string) option" where
  "parse_string [] = None"
| "parse_string (c # s) =
     (if c = CHR 0x22 then Some ([], s)
      else if c = CHR 0x5C then
        (case s of
           [] \<Rightarrow> None
         | e # s' \<Rightarrow>
             if e = CHR ''u'' then
               (case s' of
                  a # b # d # f # s'' \<Rightarrow>
                    (case hex4 a b d f of
                       None \<Rightarrow> None
                     | Some ch \<Rightarrow> map_option (apfst (Cons ch)) (parse_string s''))
                | _ \<Rightarrow> None)
             else
               (case unescape_char e of
                  None \<Rightarrow> None
                | Some ch \<Rightarrow> map_option (apfst (Cons ch)) (parse_string s')))
      else if (of_char c :: nat) < 32 then None
      else map_option (apfst (Cons c)) (parse_string s))"

text \<open>An object key with its colon: \<open>"key" :\<close>.\<close>

definition parse_key :: "string \<Rightarrow> (string \<times> string) option" where
  "parse_key s =
     (case skip_ws s of
        c # r \<Rightarrow>
          if c = CHR 0x22 then
            (case parse_string r of
               Some (key, r') \<Rightarrow>
                 (case skip_ws r' of d # r'' \<Rightarrow> if d = CHR '':'' then Some (key, r'') else None | [] \<Rightarrow> None)
             | None \<Rightarrow> None)
          else None
      | [] \<Rightarrow> None)"

fun parse_value :: "nat \<Rightarrow> string \<Rightarrow> (json \<times> string) option"
and parse_elems :: "nat \<Rightarrow> string \<Rightarrow> (json list \<times> string) option"
and parse_members :: "nat \<Rightarrow> string \<Rightarrow> ((string \<times> json) list \<times> string) option" where
  "parse_value 0 s = None"
| "parse_value (Suc f) s =
     (case skip_ws s of
        [] \<Rightarrow> None
      | c # r \<Rightarrow>
          if c = CHR ''n'' then (if take 3 r = ''ull'' then Some (JNull, drop 3 r) else None)
          else if c = CHR 0x22 then map_option (apfst JString) (parse_string r)
          else if c = CHR ''['' then
            (if take 1 (skip_ws r) = '']'' then Some (JArray [], drop 1 (skip_ws r))
             else (case parse_value f r of
                     None \<Rightarrow> None
                   | Some (v, r') \<Rightarrow> map_option (apfst (\<lambda>vs. JArray (v # vs))) (parse_elems f r')))
          else if c = CHR ''{'' then
            (if take 1 (skip_ws r) = ''}'' then Some (JObject [], drop 1 (skip_ws r))
             else (case parse_key r of
                     None \<Rightarrow> None
                   | Some (key, r') \<Rightarrow>
                       (case parse_value f r' of
                          None \<Rightarrow> None
                        | Some (v, r'') \<Rightarrow>
                            map_option (apfst (\<lambda>kvs. JObject ((key, v) # kvs))) (parse_members f r''))))
          else None)"
| "parse_elems 0 s = None"
| "parse_elems (Suc f) s =
     (case skip_ws s of
        [] \<Rightarrow> None
      | c # r \<Rightarrow>
          if c = CHR '']'' then Some ([], r)
          else if c = CHR '','' then
            (case parse_value f r of
               None \<Rightarrow> None
             | Some (v, r') \<Rightarrow> map_option (apfst (Cons v)) (parse_elems f r'))
          else None)"
| "parse_members 0 s = None"
| "parse_members (Suc f) s =
     (case skip_ws s of
        [] \<Rightarrow> None
      | c # r \<Rightarrow>
          if c = CHR ''}'' then Some ([], r)
          else if c = CHR '','' then
            (case parse_key r of
               None \<Rightarrow> None
             | Some (key, r') \<Rightarrow>
                 (case parse_value f r' of
                    None \<Rightarrow> None
                  | Some (v, r'') \<Rightarrow> map_option (apfst (Cons (key, v))) (parse_members f r'')))
          else None)"

definition json_loads :: "string \<Rightarrow> json option" where
  "json_loads s =
     (case parse_value (length s) s of
        Some (v, r) \<Rightarrow> if skip_ws r = [] then Some v else None
      | None \<Rightarrow> None)"

section \<open>Lemmas: escaping, whitespace and the decoder\<close>


lemma hex_val_hex_digit: "d < 16 \<Longrightarrow> hex_val (hex_digit d) = Some d"
  by (auto simp: hex_val_def hex_digit_def less_Suc_eq numeral_eq_Suc)

lemma hex_val_zero: "hex_val (CHR ''0'') = Some 0"
  by (simp add: hex_val_def)

lemma hex4_escape: "hex4 (CHR ''0'') (CHR ''0'') (hex_digit (of_char c div 16)) (hex_digit (of_char c mod 16)) = Some c"
proof -
  have n: "of_char c < (256::nat)" by (rule nat_of_char_less_256)
  then have "of_char c div 16 < (16::nat)" by (simp add: less_mult_imp_div_less)
  moreover have "((0 * 16 + 0) * 16 + of_char c div 16) * 16 + of_char c mod 16 = (of_char c :: nat)"
    by simp
  ultimately show ?thesis
    using n by (simp add: hex4_def hex_val_zero hex_val_hex_digit)
qed

lemma parse_string_escape_char:
  "parse_string (json_escape_char c @ r) = map_option (apfst (Cons c)) (parse_string r)"
  by (auto simp: json_escape_char_def Let_def unescape_char_def hex4_escape
)

lemma parse_string_encode:
  "parse_string (concat (map json_escape_char s) @ CHR 0x22 # r) = Some (s, r)"
  by (induction s) (simp_all add: parse_string_escape_char)

lemma skip_ws_append: "\<forall>c \<in> set w. json_ws c \<Longrightarrow> skip_ws (w @ s) = skip_ws s"
  by (simp add: skip_ws_def)

lemma skip_ws_Cons: "\<not> json_ws c \<Longrightarrow> skip_ws (c # s) = c # s"
  by (simp add: skip_ws_def)

lemma json_newline_0: "json_newline 0 = [CHR 0x0A]"
  by (simp add: json_newline_def)

lemma json_newline_Suc: "json_newline (Suc k) = json_newline k @ [CHR '' '', CHR '' '']"
  by (simp add: json_newline_def replicate_append_same [symmetric])

lemma json_ws_newline: "\<forall>c \<in> set (json_newline k). json_ws c"
  by (simp add: json_newline_def json_ws_def)

lemma skip_ws_newline [simp]: "skip_ws (json_newline k @ s) = skip_ws s"
  by (rule skip_ws_append [OF json_ws_newline])

lemma skip_ws_space [simp]: "skip_ws (CHR '' '' # s) = skip_ws s"
  by (simp add: skip_ws_def json_ws_def)

lemma skip_ws_token [simp]:
  "skip_ws (CHR '']'' # r) = CHR '']'' # r" "skip_ws (CHR ''}'' # r) = CHR ''}'' # r"
  "skip_ws (CHR '','' # r) = CHR '','' # r" "skip_ws (CHR ''['' # r) = CHR ''['' # r"
  "skip_ws (CHR ''{'' # r) = CHR ''{'' # r" "skip_ws (CHR ''n'' # r) = CHR ''n'' # r"
  "skip_ws (CHR 0x22 # r) = CHR 0x22 # r"
  by (simp_all add: skip_ws_Cons json_ws_def)

lemma json_dumps_at_first:
  "\<exists>c t. json_dumps_at k v = c # t \<and> c \<in> {CHR ''n'', CHR 0x22, CHR ''['', CHR ''{''}"
  by (cases v) (auto simp: json_encode_string_def)

lemma skip_ws_dumps [simp]: "skip_ws (json_dumps_at k v @ r) = json_dumps_at k v @ r"
  using json_dumps_at_first [of k v] by (auto simp: skip_ws_Cons json_ws_def)

lemma dumps_first_char [simp]:
  "take (Suc 0) (json_dumps_at k v) \<noteq> '']''" "take (Suc 0) (json_dumps_at k v) \<noteq> ''}''"
  "Suc 0 - length (json_dumps_at k v) = 0"
  using json_dumps_at_first [of k v] by auto

lemma parse_value_newline [simp]: "parse_value f (json_newline k @ s) = parse_value f s"
  by (cases f) simp_all

lemma parse_value_space [simp]: "parse_value f (CHR '' '' # s) = parse_value f s"
  by (cases f) simp_all

lemma parse_key_encode:
  "parse_key (json_newline k @ json_encode_string key @ '': '' @ s) = Some (key, CHR '' '' # s)"
  by (simp add: parse_key_def json_encode_string_def skip_ws_Cons json_ws_def parse_string_encode)

lemma py_join_Cons_concat: "py_join sep (w # ws) = w @ concat (map (\<lambda>v. sep @ v) ws)"
  by (induction ws arbitrary: w) simp_all


lemma parse_elems_dumps:
  assumes "\<And>y f r. y \<in> set ys \<Longrightarrow> size y < f \<Longrightarrow> parse_value f (json_dumps_at (Suc k) y @ r) = Some (y, r)"
    and "size_list size ys < f"
  shows "parse_elems f (concat (map (\<lambda>y. ('','' @ json_newline (Suc k)) @ json_dumps_at (Suc k) y) ys)
      @ json_newline k @ '']'' @ r) = Some (ys, r)"
  using assms
proof (induction ys arbitrary: f)
  case Nil
  then obtain f' where "f = Suc f'" by (cases f) auto
  then show ?case by simp
next
  case (Cons y ys)
  then obtain f' where f: "f = Suc f'" and "size y < f'" and "size_list size ys < f'" by (cases f) auto
  with Cons show ?case by simp
qed

lemma parse_members_dumps:
  assumes "\<And>key v f r. (key, v) \<in> set kvs \<Longrightarrow> size v < f \<Longrightarrow> parse_value f (json_dumps_at (Suc k) v @ r) = Some (v, r)"
    and "size_list (size_prod (\<lambda>_. 0) size) kvs < f"
  shows "parse_members f (concat (map (\<lambda>p. ('','' @ json_newline (Suc k)) @
        (case p of (key, v) \<Rightarrow> json_encode_string key @ '': '' @ json_dumps_at (Suc k) v)) kvs)
      @ json_newline k @ ''}'' @ r) = Some (kvs, r)"
  using assms
proof (induction kvs arbitrary: f)
  case Nil
  then obtain f' where "f = Suc f'" by (cases f) auto
  then show ?case by simp
next
  case (Cons p kvs)
  obtain key v where p: "p = (key, v)" by (cases p)
  with Cons obtain f' where f: "f = Suc f'" and "size v < f'" and "size_list (size_prod (\<lambda>_. 0) size) kvs < f'"
    by (cases f) auto
  let ?rest = "concat (map (\<lambda>p. ('','' @ json_newline (Suc k)) @
        (case p of (key, v) \<Rightarrow> json_encode_string key @ '': '' @ json_dumps_at (Suc k) v)) kvs)
      @ json_newline k @ ''}'' @ r"
  have v: "parse_value f' (json_dumps_at (Suc k) v @ ?rest) = Some (v, ?rest)"
    using Cons.prems(1) [of key v f'] p \<open>size v < f'\<close> by simp
  have "parse_members f' ?rest = Some (kvs, r)"
    using Cons.IH [of f'] Cons.prems(1) \<open>size_list (size_prod (\<lambda>_. 0) size) kvs < f'\<close> by auto
  with v f p show ?case
    using parse_key_encode [of "Suc k" key] by simp
qed

lemma parse_value_dumps: "size v < f \<Longrightarrow> parse_value f (json_dumps_at k v @ r) = Some (v, r)"
proof (induction v arbitrary: k f r)
  case JNull
  then obtain f' where "f = Suc f'" by (cases f) auto
  then show ?case by simp
next
  case (JString s)
  then obtain f' where "f = Suc f'" by (cases f) auto
  then show ?case by (simp add: json_encode_string_def parse_string_encode)
next
  case (JArray xs)
  then obtain f' where f: "f = Suc f'" and sz: "size_list size xs < f'" by (cases f) auto
  show ?case
  proof (cases xs)
    case Nil
    with f show ?thesis by simp
  next
    case (Cons x xs')
    let ?rest = "concat (map (\<lambda>y. ('','' @ json_newline (Suc k)) @ json_dumps_at (Suc k) y) xs')
      @ json_newline k @ '']'' @ r"
    have x: "parse_value f' (json_dumps_at (Suc k) x @ ?rest) = Some (x, ?rest)"
      using JArray.IH [of x f' "Suc k" ?rest] Cons sz by simp
    have "parse_elems f' ?rest = Some (xs', r)"
      using parse_elems_dumps [of xs' k f' r] JArray.IH Cons sz by auto
    with x f Cons show ?thesis by (simp add: py_join_Cons_concat comp_def)
  qed
next
  case (JObject kvs)
  then obtain f' where f: "f = Suc f'" and sz: "size_list (size_prod (\<lambda>_. 0) size) kvs < f'"
    by (cases f) auto
  show ?case
  proof (cases kvs)
    case Nil
    with f show ?thesis by simp
  next
    case (Cons p kvs')
    obtain key v where p: "p = (key, v)" by (cases p)
    let ?rest = "concat (map (\<lambda>p. ('','' @ json_newline (Suc k)) @
        (case p of (key, v) \<Rightarrow> json_encode_string key @ '': '' @ json_dumps_at (Suc k) v)) kvs')
      @ json_newline k @ ''}'' @ r"
    have v: "parse_value f' (json_dumps_at (Suc k) v @ ?rest) = Some (v, ?rest)"
      using JObject.IH [of p v f' "Suc k" ?rest] Cons p sz by simp
    have "parse_members f' ?rest = Some (kvs', r)"
      using parse_members_dumps [of kvs' k f' r] JObject.IH Cons sz by fastforce
    with v f Cons p show ?thesis
      using parse_key_encode [of "Suc k" key] by (simp add: py_join_Cons_concat comp_def json_encode_string_def)
  qed
qed

lemma length_py_join_ge: "sum_list (map length ws) \<le> length (py_join sep ws)"
  by (induction sep ws rule: py_join.induct) simp_all

lemma size_less_length: "size v < length (json_dumps_at k v)"
proof (induction v arbitrary: k)
  case (JArray xs)
  have "size_list size xs \<le> sum_list (map (\<lambda>x. length (json_dumps_at (Suc k) x)) xs)"
    unfolding size_list_conv_sum_list
    using sum_list_mono [of xs "\<lambda>x. size x + 1" "\<lambda>x. length (json_dumps_at (Suc k) x)"] JArray
    by (simp add: sum_list_Suc Suc_le_eq)
  also have "\<dots> \<le> length (py_join ('','' @ json_newline (Suc k)) (map (json_dumps_at (Suc k)) xs))"
    using length_py_join_ge [of "map (json_dumps_at (Suc k)) xs"] by (simp add: comp_def)
  finally show ?case by simp
next
  case (JObject kvs)
  let ?m = "\<lambda>(key, v). json_encode_string key @ '': '' @ json_dumps_at (Suc k) v"
  have "size_prod (\<lambda>_. 0) size p + 1 \<le> length (?m p)" if "p \<in> set kvs" for p
  proof -
    obtain key v where p: "p = (key, v)" by (cases p)
    with JObject that have "size v < length (json_dumps_at (Suc k) v)" by simp
    with p show ?thesis by (simp add: json_encode_string_def)
  qed
  then have "size_list (size_prod (\<lambda>_. 0) size) kvs \<le> sum_list (map (\<lambda>p. length (?m p)) kvs)"
    unfolding size_list_conv_sum_list
    using sum_list_mono [of kvs "\<lambda>p. size_prod (\<lambda>_. 0) size p + 1" "\<lambda>p. length (?m p)"]
    by (simp add: sum_list_Suc)
  also have "\<dots> \<le> length (py_join ('','' @ json_newline (Suc k)) (map ?m kvs))"
    using length_py_join_ge [of "map ?m kvs"] by (simp add: comp_def)
  finally show ?case by simp
qed (simp_all add: json_encode_string_def)

lemma skip_ws_Nil [simp]: "skip_ws [] = []"
  by (simp add: skip_ws_def)

lemma json_loads_dumps: "json_loads (json_dumps v) = Some v"
  using parse_value_dumps [of v "length (json_dumps v)" 0 "[]"] size_less_length [of v 0]
  by (simp add: json_loads_def json_dumps_def)

lemma hex_digit_text: "d < 16 \<Longrightarrow> json_text_char (hex_digit d)"
  by (auto simp: json_text_char_def hex_digit_def less_Suc_eq numeral_eq_Suc)

lemma json_escape_char_text: "list_all json_text_char (json_escape_char c)"
proof -
  have "(of_char c :: nat) div 16 < 16"
    using nat_of_char_less_256 [of c] by (simp add: less_mult_imp_div_less)
  then show ?thesis
    by (simp add: json_escape_char_def Let_def json_text_char_def hex_digit_text [simplified json_text_char_def])
qed

lemma list_all_py_join:
  "list_all P sep \<Longrightarrow> (\<And>w. w \<in> set ws \<Longrightarrow> list_all P w) \<Longrightarrow> list_all P (py_join sep ws)"
  by (induction sep ws rule: py_join.induct) simp_all

lemma json_encode_string_text: "list_all json_text_char (json_encode_string s)"
  using json_escape_char_text by (simp add: json_encode_string_def list_all_iff json_text_char_def)

lemma json_newline_text: "list_all json_text_char (json_newline k)"
  by (simp add: json_newline_def json_text_char_def list_all_iff)

lemma json_sep_text: "list_all json_text_char ('','' @ json_newline k)"
  using json_newline_text [of k] by (simp add: json_text_char_def)

lemma json_text_punct:
  "json_text_char CHR ''['' \<and> json_text_char CHR '']'' \<and> json_text_char CHR ''{'' \<and> json_text_char CHR ''}''"
  by (simp add: json_text_char_def)

lemma json_dumps_at_text: "list_all json_text_char (json_dumps_at k v)"
proof (induction v arbitrary: k)
  case (JArray xs)
  have "list_all json_text_char (py_join ('','' @ json_newline (Suc k)) (map (json_dumps_at (Suc k)) xs))"
    using JArray.IH by (intro list_all_py_join [OF json_sep_text]) auto
  then show ?case
    by (simp add: json_newline_text json_text_punct)
next
  case (JObject kvs)
  have "list_all json_text_char (json_encode_string key @ '': '' @ json_dumps_at (Suc k) v)"
    if "(key, v) \<in> set kvs" for key v
  proof -
    have "list_all json_text_char (json_dumps_at (Suc k) v)"
      using JObject.IH that by simp
    then show ?thesis
      using json_encode_string_text by (simp add: json_text_char_def)
  qed
  then have "list_all json_text_char (py_join ('','' @ json_newline (Suc k))
      (map (\<lambda>(key, v). json_encode_string key @ '': '' @ json_dumps_at (Suc k) v) kvs))"
    by (intro list_all_py_join [OF json_sep_text]) auto
  then show ?case
    by (simp add: json_newline_text json_text_punct)
qed (simp_all add: json_encode_string_text, simp add: json_text_char_def)

end
