(* ===== verification/Outputs.thy ===== *)
theory Outputs
  imports SentimentIntent MedicalNLP SOAPNote Json
begin

text \<open>
  What the three scripts return and print. Each entry point ends in
  \<open>json.dumps(..., indent=2)\<close>: \<open>analyze_patient_dialogue\<close> of
  \<open>sentiment_intent_analysis.py\<close>, \<open>analyze_transcript\<close> of
  \<open>medical-nlp-pipeline.py\<close> and \<open>generate_soap_note\<close> of
  \<open>soap-note-generator.py\<close>. Their dictionaries become \<open>json\<close> values with the
  keys in the order the code writes them, and \<open>print\<close> appends a line break.
  The \<open>__main__\<close> blocks' runs on their short sample inputs are modelled here.
\<close>

section \<open>Python values as JSON\<close>

text \<open>\<open>None\<close> or a string, as \<open>json.dumps\<close> writes it.\<close>

definition json_of_str_option :: "string option \<Rightarrow> json" where
  "json_of_str_option x = (case x of None \<Rightarrow> JNull | Some s \<Rightarrow> JString s)"


text \<open>\<open>print(s)\<close> writes \<open>s\<close> and a line break.\<close>

definition py_print :: "string \<Rightarrow> string" where
  "py_print s = s @ [CHR 0x0A]"

section \<open>\<open>sentiment_intent_analysis.py\<close>\<close>



text \<open>The last two statements of \<open>__main__\<close>: classify \<open>sample_input\<close> and print the pair.\<close>

definition sentiment_sample_print :: "patient_sentiment_analyzer \<Rightarrow> string py_result" where
  "sentiment_sample_print analyzer =
     py_bind (analyze_sentiment analyzer sample_input) (\<lambda>s.
     py_bind (analyze_intent analyzer sample_input) (\<lambda>i.
       Inr (py_print (json_dumps (JObject [(''Sentiment'', json_of_str_option s),
                                          (''Intent'', json_of_str_option i)])))))"

section \<open>\<open>medical-nlp-pipeline.py\<close>\<close>



section \<open>\<open>soap-note-generator.py\<close>\<close>

definition soap_note_json :: "soap_note \<Rightarrow> json" where
  "soap_note_json n =
     JObject [(''Subjective'', JObject [(''Chief_Complaint'', JString (Chief_Complaint (Subjective n))),
                (''History_of_Present_Illness'', JString (History_of_Present_Illness (Subjective n)))]),
              (''Objective'', JObject [(''Physical_Exam'', JString (Physical_Exam (Objective n))),
                (''Observations'', JString (Observations (Objective n)))]),
              (''Assessment'', JObject [(''Diagnosis'', JString (Assessment_Diagnosis (Assessment n))),
                (''Severity'', JString (Severity (Assessment n)))]),
              (''Plan'', JObject [(''Treatment'', JString (Plan_Treatment (Plan n))),
                (''Follow-Up'', JString (Follow_Up (Plan n)))])]"

definition generate_soap_note :: "soap_note_generator \<Rightarrow> string \<Rightarrow> string py_result" where
  "generate_soap_note self transcript =
     py_bind (generate_soap_note_t5 self transcript) (\<lambda>soap_note. Inr (json_dumps (soap_note_json soap_note)))"

text \<open>The last two statements of \<open>__main__\<close>: the note for \<open>sample_input\<close>, printed.\<close>

definition soap_sample_print :: "soap_note_generator \<Rightarrow> string py_result" where
  "soap_sample_print generator =
     py_bind (generate_soap_note generator soap_sample_input) (\<lambda>sample_soap_note. Inr (py_print sample_soap_note))"

section \<open>Shapes of the printed documents\<close>



section \<open>Lemmas\<close>




section \<open>Claims: the printed results\<close>





text \<open>The sentiment script's last line of output, for
  the assignment's sample sentence, is exactly this JSON text.\<close>

lemma sentiment_sample_print_text:
  "sentiment_sample_print init_analyzer =
     Inr ''{\<newline>  \"Sentiment\": \"Anxious\",\<newline>  \"Intent\": \"Reporting symptoms\"\<newline>}\<newline>''"
  by (simp add: sentiment_sample_print_def sample_input_analysis json_of_str_option_def py_print_def
      json_dumps_def json_encode_string_def json_escape_char_def json_newline_0 json_newline_Suc)

text \<open>The SOAP script's last output, the note for its
  "Doctor:" sample, is exactly this JSON text, with empty Physical_Exam, Observations,
  Diagnosis and Follow-Up.\<close>

lemma soap_sample_print_text:
  "soap_sample_print (init_soap_generator nlp) =
     Inr (''{\<newline>  \"Subjective\": {\<newline>    \"Chief_Complaint\": \"Neck and back pain\",\<newline>''
       @ ''    \"History_of_Present_Illness\": \"Patient had a car accident, experienced pain for four weeks, now occasional back pain.\"\<newline>  },\<newline>''
       @ ''  \"Objective\": {\<newline>    \"Physical_Exam\": \"\",\<newline>    \"Observations\": \"\"\<newline>  },\<newline>''
       @ ''  \"Assessment\": {\<newline>    \"Diagnosis\": \"\",\<newline>    \"Severity\": \"Mild, improving\"\<newline>  },\<newline>''
       @ ''  \"Plan\": {\<newline>    \"Treatment\": \"Continue physiotherapy as needed, use analgesics for pain relief.\",\<newline>''
       @ ''    \"Follow-Up\": \"\"\<newline>  }\<newline>}\<newline>'')"
  by (simp add: soap_sample_print_def generate_soap_note_def soap_sample_note soap_note_json_def py_print_def
      json_dumps_def json_encode_string_def json_escape_char_def json_newline_0 json_newline_Suc)

end
