(* ===== verification/Spec2Isabelle.thy ===== *)
theory Spec2Isabelle
  imports Outputs
begin

text \<open>
  \<^bold>\<open>A verification development of physician-notetaker.\<close>

  The repository is three independent Python scripts that put hand-written keyword
  rules around pretrained NLP models:
  \<^item> \<open>src/medical-nlp-pipeline.py\<close>, class \<open>MedicalNLPPipeline\<close>: patient name by
    regular expression, categorisation of NER entities by keyword lists, current status
    from spaCy sentences, KeyBERT keywords, and \<open>summarize_transcript\<close>, which
    stitches them into a summary dictionary and adds fixed strings when literal
    substrings occur in the transcript; \<open>analyze_transcript\<close> dumps it as JSON;
  \<^item> \<open>src/sentiment_intent_analysis.py\<close>, class \<open>PatientSentimentAnalyzer\<close>: the
    patient's lines are extracted and classified by two keyword-frequency counters
    (sentiment, intent), and the pair is dumped as JSON; the BERT models are loaded
    but their calls are commented out;
  \<^item> \<open>src/soap-note-generator.py\<close>, class \<open>SOAPNoteGenerator\<close>: physician and
    patient lines are split apart and a SOAP note is filled with fixed strings keyed
    to substrings, then dumped as JSON; the T5 model is loaded but never called.
  The scripts share no state and do not call each other; what they share is the
  Python string vocabulary they are written in and \<open>json.dumps\<close>.

  \<^bold>\<open>Library layout.\<close>
  \<^item> \<open>Prelude\<close>: the error type \<open>py_error\<close> (KeyError, ValueError), results
    \<open>py_error + 'a\<close> with \<open>py_bind\<close>, dictionaries in insertion order as
    association lists, and the collections \<open>py_result_iff\<close> and \<open>scan_simps\<close>.
  \<^item> \<open>PyStr\<close>: Python's \<open>str.lower\<close>, \<open>isspace\<close>/\<open>strip\<close>, \<open>startswith\<close>,
    \<open>in\<close>, \<open>split\<close>, \<open>join\<close> and \<open>replace\<close> on Latin-1 strings, with their
    refinement of the library's \<open>prefix\<close> and \<open>sublist\<close>, the split/join round
    trips and the facts about \<open>replace\<close> and \<open>strip\<close> the components need.
    \<open>replace\<close>'s scanning loop is a \<^theory_text>\<open>function\<close> whose termination measure is
    the length of the rest of the string.
  \<^item> \<open>SentimentIntent\<close>: \<open>sentiment_intent_analysis.py\<close>. The object is the record
    \<open>patient_sentiment_analyzer\<close> of its keyword tables (\<open>init_analyzer\<close> is
    \<open>__init__\<close>); \<open>extract_patient_dialogue\<close>; the score dictionary
    (\<open>init_scores\<close>, \<open>dict_incr\<close> for \<open>scores[c] += 1\<close> with its KeyError);
    the two loops \<open>count_keywords\<close> and \<open>tally\<close>; \<open>py_max\<close> with its ValueError;
    the final loop \<open>first_with_score\<close> whose fall-through is \<open>None\<close>; their
    composition \<open>keyword_classify\<close>, shared by \<open>rule_based_sentiment\<close> and
    \<open>rule_based_intent\<close>; the try/except wrappers \<open>analyze_sentiment\<close>,
    \<open>analyze_intent\<close>; and \<open>analyze_patient_dialogue\<close> up to its dictionary.
    The abstract specification \<open>classify_spec\<close> says what a classifier promises
    (the default when nothing scores, otherwise the first class in class order with the
    maximal number of keyword hits); \<open>keyword_classify_refines_spec\<close> proves the
    loops implement it, using the loop invariant "one entry per class, in class order";
    \<open>keyword_classify_outcome\<close> gives the outcome on any table, errors included.
  \<^item> \<open>PatientName\<close>: \<open>extract_patient_name\<close> of \<open>medical-nlp-pipeline.py\<close>.
    Each of the two regular expressions is a matcher (\<open>match_spaced_name\<close>,
    \<open>match_mr_ms\<close>) returning the captured group and the match length;
    \<open>findall\<close> is the scan \<open>re.findall\<close> performs (a \<^theory_text>\<open>function\<close> with the
    length of the rest of the text as measure), \<open>first_findall\<close> the loop over the
    patterns with its early return. The reference \<open>leftmost_match\<close> says what the
    first element of \<open>findall\<close> is.
  \<^item> \<open>MedicalNLP\<close>: the rest of \<open>MedicalNLPPipeline\<close>. The object is the record
    \<open>medical_nlp_pipeline\<close> whose fields are the NER model, spaCy's sentence
    segmenter and KeyBERT (functions supplied by the environment) and the
    \<open>categories\<close> table; \<open>categorize_entities\<close> (the double loop, which has no
    \<open>break\<close>: \<open>categorize_word\<close> files the entity under every category with a
    matching keyword), \<open>extract_current_status\<close>, \<open>extract_keywords\<close>, and
    \<open>summarize_transcript\<close>, whose seven guarded appends are the definitions
    \<open>rule_whiplash\<close> .. \<open>rule_head_impact\<close> composed in source order by
    \<open>apply_custom_rules\<close>.
  \<^item> \<open>SOAPNote\<close>: \<open>SOAPNoteGenerator\<close>. \<open>dialogue_loop\<close> is the loop of
    \<open>extract_dialogue_parts\<close>; \<open>categorize_text\<close> (with \<open>dict_append\<close>'s
    KeyError and \<open>first_section\<close>'s \<open>break\<close>); the SOAP note as nested records,
    its eight conditional assignments \<open>soap_chief_complaint\<close> .. \<open>soap_follow_up\<close>
    composed by \<open>fill_soap_note\<close>; \<open>generate_soap_note_rule_based\<close> and the
    try/except of \<open>generate_soap_note_t5\<close>.
  \<^item> \<open>Json\<close>: \<open>json.dumps(obj, indent=2)\<close> as CPython computes it
    (\<open>_make_iterencode\<close> and \<open>encode_basestring_ascii\<close>: \<open>json_dumps_at\<close>,
    \<open>json_encode_string\<close>), and a reference decoder \<open>json_loads\<close> in the role of
    \<open>json.loads\<close>. The decoder is a mutual recursion on a fuel argument (a
    nesting budget, so that it is a total \<^theory_text>\<open>fun\<close>); \<open>json_loads\<close> gives it the
    length of the text, which \<open>size_less_length\<close> proves is more than the nesting
    depth of every value \<open>json_dumps\<close> prints, so the fuel never runs out there.
  \<^item> \<open>Outputs\<close>: the three entry points that return JSON text
    (\<open>analyze_patient_dialogue_json\<close>, \<open>analyze_transcript\<close>,
    \<open>generate_soap_note\<close>), the dictionaries they dump (\<open>dialogue_analysis_json\<close>,
    \<open>summary_json\<close>, \<open>soap_note_json\<close>, keys in source order), \<open>print\<close>, and the
    last two statements of the sentiment and SOAP scripts' \<open>__main__\<close> blocks.
  \<^item> this theory: properties that relate the scripts.

  \<^bold>\<open>What the lemmas show.\<close>
  \<^item> Sentiment and intent: both classifiers compute their specification and are total
    on the analyzer's tables (no KeyError, no ValueError, no \<open>None\<close>), returning the
    arg-max class with ties broken by class order; on an arbitrary table, KeyError
    arises exactly for the first table entry whose class is missing and whose keyword
    occurs, and ValueError exactly when the class list is empty and no keyword occurs;
    the classifiers are case-insensitive; the dialogue extraction inverts the
    construction of a transcript from patient lines.
  \<^item> Patient name: the returned name is the leftmost match of the first pattern that
    matches at all (not the leftmost over both patterns), has the shape the pattern
    describes, and round-trips for "Mr"/"Ms" + capitalised word.
  \<^item> Pipeline: with the constructor's categories, each category list is the entity
    words, in NER order, that contain one of that category's keywords (an entity may
    land in several lists), whatever the NER model returns; the summary's lists are
    the categorised lists followed by the triggered fixed strings, without duplicates
    except the prognosis rule, which appends unconditionally; a found status is
    lowercase.
  \<^item> SOAP: the generator is total for any segmenter, its section categorisation is
    computed and discarded, the "assessment" marker of the assessment section is
    dead, and the Observations rule fires on any "good".
  \<^item> JSON: \<open>json_loads (json_dumps v) = Some v\<close> for every value, the output is
    printable ASCII and line breaks, and the text each entry point returns decodes to
    a document of the shape its dictionary has; the sentiment entry point's text
    decodes to the specification's pair.
  \<^item> Across the scripts: the SOAP generator's patient part is the sentiment
    analyser's patient dialogue, on every transcript.

  \<^bold>\<open>Modelling choices.\<close> Strings are \<open>char list\<close> read as Latin-1 code points,
  so \<open>lower\<close> and \<open>isspace\<close> are Python's on U+0000..U+00FF. Python integers are
  \<open>nat\<close> (scores and lengths only count up). Pretrained models (BERT, spaCy, the NER
  pipeline, KeyBERT) are parameters: every theorem holds for all of them, and the
  concrete examples use models that return nothing. No loop of the scripts needs
  fuel: every loop runs over a finite list, and \<open>replace\<close> and \<open>findall\<close> have
  length measures; the only fuel is the JSON decoder's, bounded as said above.

  \<^bold>\<open>Not modelled.\<close> The models' internals (they are parameters); the long
  consultation transcripts of the \<open>__main__\<close> blocks of the sentiment and pipeline
  scripts, which are fixed data outside Latin-1 (they contain U+2014) and whose
  analysis would only be a computation on one input; the pipeline script's
  \<open>__main__\<close> printing, which is that analysis.
\<close>

section \<open>Across the scripts: the two patient-line extractors\<close>

text \<open>
  \<open>sentiment_intent_analysis.py\<close> and \<open>soap-note-generator.py\<close> extract the
  patient's lines differently: the first tests \<open>line.strip().startswith('Patient:')\<close>
  and strips after replacing in the unstripped line; the second strips first and
  tests for \<open>Physician:\<close> before \<open>Patient:\<close>. Since the tag contains no
  whitespace and no line can start with both tags, the two agree.
\<close>

lemma py_strip_decompose:
  "\<exists>ws1 ws2. (\<forall>c \<in> set ws1. is_space c) \<and> (\<forall>c \<in> set ws2. is_space c) \<and> s = ws1 @ py_strip s @ ws2"
proof -
  let ?l = "dropWhile is_space s"
  have s: "s = takeWhile is_space s @ ?l" by simp
  have l: "rev ?l = takeWhile is_space (rev ?l) @ dropWhile is_space (rev ?l)" by simp
  then have "?l = rev (dropWhile is_space (rev ?l)) @ rev (takeWhile is_space (rev ?l))"
    by (metis rev_append rev_rev_ident)
  then have "s = takeWhile is_space s @ py_strip s @ rev (takeWhile is_space (rev ?l))"
    using s by (simp add: py_strip_def py_lstrip_def py_rstrip_def)
  then show ?thesis by (metis set_rev set_takeWhileD)
qed

lemma strip_replace_strip:
  assumes "old \<noteq> []" and "\<forall>c \<in> set old. \<not> is_space c"
  shows "py_strip (py_replace old new (py_strip line)) = py_strip (py_replace old new line)"
proof -
  obtain ws1 ws2 where sp1: "\<forall>c \<in> set ws1. is_space c" and sp2: "\<forall>c \<in> set ws2. is_space c"
    and line: "line = ws1 @ py_strip line @ ws2"
    using py_strip_decompose by blast
  have d1: "set ws1 \<inter> set old = {}" and d2: "set ws2 \<inter> set old = {}"
    using sp1 sp2 assms(2) by auto
  have "py_replace old new line = ws1 @ py_replace old new (py_strip line) @ ws2"
    using assms(1) by (subst line) (simp add: py_replace_def replace_scan_disjoint_left [OF d1]
        replace_scan_disjoint_right [OF d2])
  then show ?thesis using sp1 sp2 by (simp add: py_strip_spaces_around)
qed

lemma patient_not_physician: "py_startswith patient_label l \<Longrightarrow> \<not> py_startswith physician_label l"
  by (auto simp: py_startswith_def patient_label_def physician_label_def take_Suc_conv_app_nth
      dest!: arg_cong [where f = "\<lambda>x. x ! 1"])

text \<open>C5: the patient dialogue the SOAP generator extracts is, for every
  transcript, the patient dialogue the sentiment analyser extracts.\<close>

theorem soap_patient_part_eq_sentiment_dialogue:
  "patient (extract_dialogue_parts tr) = extract_patient_dialogue tr"
proof -
  let ?lines = "py_split line_break tr"
  let ?g = "\<lambda>l. py_strip (py_replace patient_label [] l)"
  have lbl: "patient_tag = patient_label" "newline = line_break"
    by (simp_all add: patient_tag_def patient_label_def newline_def line_break_def)
  have nosp: "patient_label \<noteq> []" "\<forall>c \<in> set patient_label. \<not> is_space c"
    by (simp_all add: patient_label_def is_space_def)
  have pred: "(\<lambda>l. \<not> py_startswith physician_label (py_strip l) \<and> py_startswith patient_label (py_strip l))
      = (\<lambda>l. py_startswith patient_label (py_strip l))"
    using patient_not_physician by blast
  have "filter (\<lambda>l. \<not> py_startswith physician_label l \<and> py_startswith patient_label l) (map py_strip ?lines)
      = map py_strip (filter (\<lambda>l. py_startswith patient_label (py_strip l)) ?lines)"
    by (simp add: filter_map comp_def pred)
  then have "map ?g (filter (\<lambda>l. \<not> py_startswith physician_label l \<and> py_startswith patient_label l)
        (map py_strip ?lines))
      = map ?g (filter (\<lambda>l. py_startswith patient_label (py_strip l)) ?lines)"
    using strip_replace_strip [OF nosp] by simp
  then show ?thesis
    by (simp add: extract_dialogue_parts_def dialogue_loop_eq extract_patient_dialogue_def lbl)
qed

end
